theory Spec2Isabelle
  imports Main "HOL-Library.Word"
begin

unbundle bit_operations_syntax

section \<open>The portal backend of the file dialog\<close>

text \<open>
  A C string is modelled by the list of its characters before the terminating NUL; the
  terminator is written out only where the code copies or reads it. \<open>strlen\<close> is then
  \<open>length\<close>, and \<open>strcmp(a, b) == 0\<close> is \<open>a = b\<close>.
\<close>

datatype nfdresult_t = NFD_ERROR | NFD_OKAY | NFD_CANCEL

definition NUL :: char where
  "NUL = CHR 0x00"

text \<open>The bytes a C string occupies in memory: its characters and the terminator.\<close>

definition c_mem :: "string \<Rightarrow> char list" where
  "c_mem s = s @ [NUL]"

text \<open>\<open>*p\<close> for a pointer \<open>p\<close> into a C string, given the characters from \<open>p\<close> on.\<close>

fun deref :: "string \<Rightarrow> char" where
  "deref [] = NUL"
| "deref (c # cs) = c"

text \<open>
  \<open>copy(begin, end, out)\<close> and \<open>transform(begin, end, out, callback)\<close>: the source range
  is given by the memory from \<open>begin\<close> on and the number \<open>end - begin\<close> of elements; the
  result is what has been written from the start of the output buffer up to the returned
  pointer.
\<close>

definition copy :: "'a list \<Rightarrow> nat \<Rightarrow> 'a list \<Rightarrow> 'a list" where
  "copy src n out = out @ take n src"

definition transform :: "'a list \<Rightarrow> nat \<Rightarrow> 'a list \<Rightarrow> ('a \<Rightarrow> 'a) \<Rightarrow> 'a list" where
  "transform src n out callback = out @ map callback (take n src)"

subsection \<open>Token generator\<close>

text \<open>
  The entropy source is given by the outcomes of the successive \<open>getrandom\<close> calls, in
  order: bytes delivered, \<open>-1\<close> with \<open>errno = EINTR\<close>, or \<open>-1\<close> with any other \<open>errno\<close>.
  A call asking for \<open>amount\<close> bytes receives at most \<open>amount\<close> of the bytes on offer. A
  run that issues more calls than the list describes has no result (\<open>None\<close>).
\<close>

datatype getrandom_result = Bytes "8 word list" | EINTR | Failed

text \<open>The two characters written for one entropy byte: low nibble first.\<close>

definition encode_byte :: "8 word \<Rightarrow> string" where
  "encode_byte b =
     [char_of (of_char CHR ''A'' + unat (b AND 15) :: nat),
      char_of (of_char CHR ''A'' + unat (drop_bit 4 b) :: nat)]"

fun random_chars_loop :: "getrandom_result list \<Rightarrow> nat \<Rightarrow> string \<Rightarrow> string option" where
  "random_chars_loop [] amount out = (if amount > 0 then None else Some out)"
| "random_chars_loop (r # rs) amount out =
     (if amount > 0 then
        (case r of
           EINTR \<Rightarrow> random_chars_loop rs amount out
         | Failed \<Rightarrow> Some out
         | Bytes bs \<Rightarrow>
             (let buf = take amount bs;
                  res = length buf
              in random_chars_loop rs (amount - res) (out @ concat (map encode_byte buf))))
      else Some out)"

text \<open>The characters appended at \<open>out\<close>, that is, the range from \<open>out\<close> to the returned pointer.\<close>

definition Generate64RandomChars :: "getrandom_result list \<Rightarrow> string option" where
  "Generate64RandomChars rs = random_chars_loop rs 32 []"

text \<open>The alphabet \<open>[A-Za-z0-9_]\<close> of a callback token.\<close>

definition token_char :: "char \<Rightarrow> bool" where
  "token_char c \<longleftrightarrow>
     (let n = (of_char c :: nat) in
        (65 \<le> n \<and> n \<le> 90) \<or> (97 \<le> n \<and> n \<le> 122) \<or> (48 \<le> n \<and> n \<le> 57) \<or> n = 95)"

text \<open>Bytes offered by one \<open>getrandom\<close> outcome.\<close>

fun offered :: "getrandom_result \<Rightarrow> nat" where
  "offered (Bytes bs) = length bs"
| "offered EINTR = 0"
| "offered Failed = 0"

subsection \<open>Address builder\<close>

definition STR_RESPONSE_HANDLE_PREFIX :: string where
  "STR_RESPONSE_HANDLE_PREFIX = ''/org/freedesktop/portal/desktop/request/''"

definition STR_RESPONSE_HANDLE_PREFIX_LEN :: nat where
  "STR_RESPONSE_HANDLE_PREFIX_LEN = length (c_mem STR_RESPONSE_HANDLE_PREFIX) - 1"

text \<open>
  Returns the path and the offset of the token in it (\<open>handle_token_ptr\<close> points into
  the path buffer).
\<close>

definition MakeUniqueObjectPath :: "string \<Rightarrow> getrandom_result list \<Rightarrow> (string \<times> nat) option" where
  "MakeUniqueObjectPath dbus_unique_name rs =
     (let sender = (if deref dbus_unique_name = CHR '':'' then tl dbus_unique_name
                    else dbus_unique_name);
          sender_len = length sender;
          path_ptr = copy STR_RESPONSE_HANDLE_PREFIX STR_RESPONSE_HANDLE_PREFIX_LEN [];
          path_ptr = transform sender sender_len path_ptr
                       (\<lambda>ch. if ch \<noteq> CHR ''.'' then ch else CHR ''_'');
          path_ptr = path_ptr @ ''/'';
          handle_token_ptr = length path_ptr
      in case Generate64RandomChars rs of
           None \<Rightarrow> None
         | Some chars \<Rightarrow> Some (path_ptr @ chars, handle_token_ptr))"

subsection \<open>Process-wide state and the bus connection\<close>

text \<open>
  Values of a message body as the reading iterator sees them. Signatures are not kept on
  the reading side.
\<close>

datatype dbus_value =
    DBUS_STRING string
  | DBUS_UINT32 "32 word"
  | DBUS_BOOLEAN bool
  | DBUS_OBJECT_PATH string
  | DBUS_VARIANT dbus_value
  | DBUS_ARRAY "dbus_value list"
  | DBUS_STRUCT "dbus_value list"
  | DBUS_DICT_ENTRY "dbus_value list"

datatype dbus_type =
    DBUS_TYPE_INVALID | DBUS_TYPE_STRING | DBUS_TYPE_UINT32 | DBUS_TYPE_BOOLEAN
  | DBUS_TYPE_OBJECT_PATH | DBUS_TYPE_VARIANT | DBUS_TYPE_ARRAY | DBUS_TYPE_STRUCT
  | DBUS_TYPE_DICT_ENTRY

datatype message_type = METHOD_CALL | METHOD_RETURN | ERROR_MESSAGE | SIGNAL

record DBusMessage =
  msg_type :: message_type
  msg_path :: string
  msg_interface :: string
  msg_member :: string
  msg_body :: "dbus_value list"

text \<open>
  A message under construction is a tree: a value appended through an iterator is added to
  the container the iterator was opened for, and a container stays open until it is closed.
  A container node keeps its type, the signature of its contents, whether it has been
  closed, and its items.
\<close>

datatype wnode = WBasic dbus_value | WContainer dbus_type string bool "wnode list"

record method_call =
  call_destination :: string
  call_path :: string
  call_interface :: string
  call_method :: string
  call_body :: "wnode list"

text \<open>
  What \<open>dbus_connection_read_write(conn, -1)\<close> does when it is called: new messages are
  queued and it returns true, or the connection is gone and it returns false.
\<close>

datatype transport_event = Traffic "DBusMessage list" | Disconnected

datatype bus_call =
    AddMatch string
  | RemoveMatch string
  | SendWithReplyAndBlock method_call
  | PopMessage
  | ReadWrite

text \<open>
  \<open>err_ptr\<close> is the current error (the D-Bus error buffer it may point to is kept as the
  message itself). The connection \<open>dbus_conn\<close> is given by the calls made on it so far and
  the queue of incoming messages.
\<close>

record nfd_state =
  err_ptr :: "string option"
  bus_log :: "bus_call list"
  incoming :: "DBusMessage list"

text \<open>
  The part of the world that this process does not control: its own unique name on the
  bus, the error (if any) with which the bus answers a match rule, the answer to the method
  call (an error message or the reply), the outcomes of the successive blocking reads (after
  the last of them nothing arrives any more, and a further read never returns), and the
  outcomes of the successive \<open>getrandom\<close> calls.
\<close>

record dbus_env =
  dbus_unique_name :: string
  add_match_error :: "string \<Rightarrow> string option"
  remove_match_error :: "string \<Rightarrow> string option"
  call_reply :: "method_call \<Rightarrow> string + DBusMessage"
  traffic :: "transport_event list"
  entropy :: "getrandom_result list"

definition NFDi_SetError :: "string \<Rightarrow> nfd_state \<Rightarrow> nfd_state" where
  "NFDi_SetError msg st = st\<lparr>err_ptr := Some msg\<rparr>"

definition bus_called :: "bus_call \<Rightarrow> nfd_state \<Rightarrow> nfd_state" where
  "bus_called c st = st\<lparr>bus_log := bus_log st @ [c]\<rparr>"

subsection \<open>Locator resolver\<close>

definition FILE_URI_PREFIX :: string where
  "FILE_URI_PREFIX = ''file://''"

text \<open>
  The prefix loop, given the rest of the prefix and the characters from \<open>fileUri\<close> on;
  \<open>None\<close> is the mismatch. No character of the prefix is NUL, so \<open>fileUri\<close> never moves
  past its terminator.
\<close>

fun prefix_loop :: "string \<Rightarrow> string \<Rightarrow> string option" where
  "prefix_loop [] fileUri = Some fileUri"
| "prefix_loop (p # prefix_begin) fileUri =
     (if p \<noteq> deref fileUri then None else prefix_loop prefix_begin (tl fileUri))"

text \<open>
  \<open>outPath\<close> is the caller's pointer: \<open>None\<close> for null, otherwise the bytes of the buffer
  it points to, terminator included.
\<close>

definition AllocAndCopyFIlePath ::
  "string \<Rightarrow> char list option \<Rightarrow> nfd_state \<Rightarrow> nfdresult_t \<times> char list option \<times> nfd_state" where
  "AllocAndCopyFIlePath fileUri outPath st =
     (case prefix_loop FILE_URI_PREFIX fileUri of
        None \<Rightarrow>
          (NFD_ERROR, outPath,
           NFDi_SetError ''D-Bus freedesktop portal returned a URI that is not a file URI.'' st)
      | Some fileUri' \<Rightarrow>
          (let len = length fileUri';
               path_without_prefix = copy (c_mem fileUri') (len + 1) []
           in (NFD_OKAY, Some path_without_prefix, st)))"

subsection \<open>Response decoder\<close>

text \<open>
  A reading iterator is given by the values from its position to the end of the container
  it walks. The iterator functions of the bus library are modelled as documented:
  \<open>get_arg_type\<close> is \<open>DBUS_TYPE_INVALID\<close> at the end, \<open>recurse\<close> enters the container under the
  iterator, \<open>next\<close> moves on and tells whether there is a value at the new position.
\<close>

type_synonym DBusMessageIter = "dbus_value list"

fun dbus_type_of :: "dbus_value \<Rightarrow> dbus_type" where
  "dbus_type_of (DBUS_STRING s) = DBUS_TYPE_STRING"
| "dbus_type_of (DBUS_UINT32 n) = DBUS_TYPE_UINT32"
| "dbus_type_of (DBUS_BOOLEAN b) = DBUS_TYPE_BOOLEAN"
| "dbus_type_of (DBUS_OBJECT_PATH s) = DBUS_TYPE_OBJECT_PATH"
| "dbus_type_of (DBUS_VARIANT v) = DBUS_TYPE_VARIANT"
| "dbus_type_of (DBUS_ARRAY vs) = DBUS_TYPE_ARRAY"
| "dbus_type_of (DBUS_STRUCT vs) = DBUS_TYPE_STRUCT"
| "dbus_type_of (DBUS_DICT_ENTRY vs) = DBUS_TYPE_DICT_ENTRY"

definition dbus_message_iter_init :: "DBusMessage \<Rightarrow> bool \<times> DBusMessageIter" where
  "dbus_message_iter_init msg = (msg_body msg \<noteq> [], msg_body msg)"

fun dbus_message_iter_get_arg_type :: "DBusMessageIter \<Rightarrow> dbus_type" where
  "dbus_message_iter_get_arg_type [] = DBUS_TYPE_INVALID"
| "dbus_message_iter_get_arg_type (v # vs) = dbus_type_of v"

text \<open>The code calls \<open>recurse\<close> and \<open>get_basic\<close> only after it has checked the type.\<close>

fun dbus_message_iter_recurse :: "DBusMessageIter \<Rightarrow> DBusMessageIter" where
  "dbus_message_iter_recurse (DBUS_VARIANT v # vs) = [v]"
| "dbus_message_iter_recurse (DBUS_ARRAY xs # vs) = xs"
| "dbus_message_iter_recurse (DBUS_STRUCT xs # vs) = xs"
| "dbus_message_iter_recurse (DBUS_DICT_ENTRY xs # vs) = xs"
| "dbus_message_iter_recurse vs = []"

definition dbus_message_iter_next :: "DBusMessageIter \<Rightarrow> bool \<times> DBusMessageIter" where
  "dbus_message_iter_next iter = (tl iter \<noteq> [], tl iter)"

fun get_basic_string :: "DBusMessageIter \<Rightarrow> string" where
  "get_basic_string (DBUS_STRING s # vs) = s"
| "get_basic_string (DBUS_OBJECT_PATH s # vs) = s"
| "get_basic_string vs = []"

fun get_basic_uint32 :: "DBusMessageIter \<Rightarrow> 32 word" where
  "get_basic_uint32 (DBUS_UINT32 n # vs) = n"
| "get_basic_uint32 vs = 0"

text \<open>
  A callback reads from an iterator and may change what it has captured by reference (\<open>'c\<close>)
  and the process-wide state.
\<close>

type_synonym 'c callback = "DBusMessageIter \<Rightarrow> 'c \<Rightarrow> nfd_state \<Rightarrow> nfdresult_t \<times> 'c \<times> nfd_state"

text \<open>The variadic argument pack: keys and callbacks, alternately.\<close>

fun ReadDictImpl ::
  "string \<Rightarrow> DBusMessageIter \<Rightarrow> (string \<times> 'c callback) list \<Rightarrow> 'c \<Rightarrow> nfd_state
     \<Rightarrow> nfdresult_t \<times> 'c \<times> nfd_state" where
  "ReadDictImpl key iter [] c st = (NFD_OKAY, c, st)"
| "ReadDictImpl key iter ((candidate_key, candidate_callback) # args) c st =
     (if key = candidate_key then candidate_callback iter c st
      else ReadDictImpl key iter args c st)"

function ReadDict_loop ::
  "DBusMessageIter \<Rightarrow> (string \<times> 'c callback) list \<Rightarrow> 'c \<Rightarrow> nfd_state
     \<Rightarrow> nfdresult_t \<times> 'c \<times> nfd_state" where
  "ReadDict_loop sub_iter args c st =
     (if dbus_message_iter_get_arg_type sub_iter = DBUS_TYPE_DICT_ENTRY then
        (let de_iter = dbus_message_iter_recurse sub_iter in
         if dbus_message_iter_get_arg_type de_iter \<noteq> DBUS_TYPE_STRING then
           (NFD_ERROR, c,
            NFDi_SetError ''D-Bus response signal dict entry does not start with a string.'' st)
         else
           (let key = get_basic_string de_iter;
                moved = dbus_message_iter_next de_iter;
                de_iter = snd moved
            in if \<not> fst moved then
                 (NFD_ERROR, c,
                  NFDi_SetError
                    ''D-Bus response signal dict entry is missing one or more arguments.'' st)
               else if dbus_message_iter_get_arg_type de_iter \<noteq> DBUS_TYPE_VARIANT then
                 (NFD_ERROR, c,
                  NFDi_SetError ''D-Bus response signal dict entry value is not a variant.'' st)
               else
                 (let de_variant_iter = dbus_message_iter_recurse de_iter;
                      r = ReadDictImpl key de_variant_iter args c st
                  in if fst r = NFD_ERROR then (NFD_ERROR, snd r)
                     else if \<not> fst (dbus_message_iter_next sub_iter) then (NFD_OKAY, snd r)
                     else ReadDict_loop (snd (dbus_message_iter_next sub_iter)) args
                            (fst (snd r)) (snd (snd r)))))
      else (NFD_OKAY, c, st))"
  by pat_completeness auto
termination
proof (relation "measure (\<lambda>(sub_iter, args, c, st). length sub_iter)", goal_cases)
  case 1
  show ?case by simp
next
  case (2 sub_iter args c st)
  then have "sub_iter \<noteq> []" by auto
  then show ?case by (cases sub_iter) (simp_all add: dbus_message_iter_next_def)
qed

declare ReadDict_loop.simps [simp del]

definition ReadDict ::
  "DBusMessageIter \<Rightarrow> (string \<times> 'c callback) list \<Rightarrow> 'c \<Rightarrow> nfd_state
     \<Rightarrow> nfdresult_t \<times> 'c \<times> nfd_state" where
  "ReadDict iter args c st =
     (if dbus_message_iter_get_arg_type iter \<noteq> DBUS_TYPE_ARRAY then
        (NFD_ERROR, c, NFDi_SetError ''D-Bus response signal argument is not an array.'' st)
      else ReadDict_loop (dbus_message_iter_recurse iter) args c st)"

text \<open>The callback for \<open>uris\<close>; it captures \<open>file\<close> by reference.\<close>

definition uris_callback :: "string option callback" where
  "uris_callback uris_iter file st =
     (if dbus_message_iter_get_arg_type uris_iter \<noteq> DBUS_TYPE_ARRAY then
        (NFD_ERROR, file, NFDi_SetError ''D-Bus response signal URI iter is not an array.'' st)
      else
        (let uris_sub_iter = dbus_message_iter_recurse uris_iter in
         if dbus_message_iter_get_arg_type uris_sub_iter \<noteq> DBUS_TYPE_STRING then
           (NFD_ERROR, file,
            NFDi_SetError ''D-Bus response signal URI sub iter is not an string.'' st)
         else (NFD_OKAY, Some (get_basic_string uris_sub_iter), st)))"

definition ReadResponseParamsSingle ::
  "DBusMessage \<Rightarrow> string option \<Rightarrow> nfd_state \<Rightarrow> nfdresult_t \<times> string option \<times> nfd_state" where
  "ReadResponseParamsSingle msg file st =
     (let init = dbus_message_iter_init msg; iter = snd init in
      if \<not> fst init then
        (NFD_ERROR, file,
         NFDi_SetError ''D-Bus response signal is missing one or more arguments.'' st)
      else if dbus_message_iter_get_arg_type iter \<noteq> DBUS_TYPE_UINT32 then
        (NFD_ERROR, file, NFDi_SetError ''D-Bus response signal argument is not a uint32.'' st)
      else
        (let resp_code = get_basic_uint32 iter in
         if resp_code \<noteq> 0 then
           (if resp_code = 1 then (NFD_CANCEL, file, st)
            else (NFD_ERROR, file,
                  NFDi_SetError ''D-Bus file dialog interaction was ended abruptly.'' st))
         else
           (let moved = dbus_message_iter_next iter; iter = snd moved in
            if \<not> fst moved then
              (NFD_ERROR, file,
               NFDi_SetError ''D-Bus response signal is missing one or more arguments.'' st)
            else
              (let r = ReadDict iter [(''uris'', uris_callback)] file st in
               if fst r = NFD_ERROR then (NFD_ERROR, snd r) else (NFD_OKAY, snd r)))))"

text \<open>
  The decoder as the specification words it: the entries in order, each given to the first
  handler registered for its key, entries without a handler skipped, the first handler
  failure ending the decode.
\<close>

fun decode_entries ::
  "(string \<times> dbus_value) list \<Rightarrow> (string \<times> 'c callback) list \<Rightarrow> 'c \<Rightarrow> nfd_state
     \<Rightarrow> nfdresult_t \<times> 'c \<times> nfd_state" where
  "decode_entries [] handlers c st = (NFD_OKAY, c, st)"
| "decode_entries ((key, v) # entries) handlers c st =
     (case find (\<lambda>(k, h). k = key) handlers of
        None \<Rightarrow> decode_entries entries handlers c st
      | Some (k, h) \<Rightarrow>
          (case h [v] c st of
             (NFD_ERROR, c', st') \<Rightarrow> (NFD_ERROR, c', st')
           | (res, c', st') \<Rightarrow> decode_entries entries handlers c' st'))"

text \<open>The wire form of a dictionary \<open>a{sv}\<close> with the given entries.\<close>

definition dict_value :: "(string \<times> dbus_value) list \<Rightarrow> dbus_value" where
  "dict_value entries =
     DBUS_ARRAY (map (\<lambda>(k, v). DBUS_DICT_ENTRY [DBUS_STRING k, DBUS_VARIANT v]) entries)"

subsection \<open>Subscription manager\<close>

record DBusSignalSubscriptionHandler =
  sub_cmd :: "string option"

definition STR_RESPONSE_SUBSCRIPTION_PATH_1 :: string where
  "STR_RESPONSE_SUBSCRIPTION_PATH_1 =
     ''type='' @ [CHR 0x27] @ ''signal'' @ [CHR 0x27] @ '',sender='' @ [CHR 0x27] @
     ''org.freedesktop.portal.Desktop'' @ [CHR 0x27] @ '',path='' @ [CHR 0x27]"

definition STR_RESPONSE_SUBSCRIPTION_PATH_2 :: string where
  "STR_RESPONSE_SUBSCRIPTION_PATH_2 =
     [CHR 0x27] @ '',interface='' @ [CHR 0x27] @ ''org.freedesktop.portal.Request'' @
     [CHR 0x27] @ '',member='' @ [CHR 0x27] @ ''Response'' @ [CHR 0x27] @
     '',destination='' @ [CHR 0x27]"

definition STR_RESPONSE_SUBSCRIPTION_PATH_3 :: string where
  "STR_RESPONSE_SUBSCRIPTION_PATH_3 = [CHR 0x27]"

text \<open>The three lengths (\<open>sizeof - 1\<close>) are 60, 76 and 1: each fits the \<open>char\<close> it is declared as.\<close>

definition MakeResponseSubscriptionPath :: "string \<Rightarrow> string \<Rightarrow> string" where
  "MakeResponseSubscriptionPath handle_path unique_name =
     (let handle_path_len = length handle_path;
          unique_name_len = length unique_name;
          res_ptr = copy STR_RESPONSE_SUBSCRIPTION_PATH_1
                      (length (c_mem STR_RESPONSE_SUBSCRIPTION_PATH_1) - 1) [];
          res_ptr = copy handle_path handle_path_len res_ptr;
          res_ptr = copy STR_RESPONSE_SUBSCRIPTION_PATH_2
                      (length (c_mem STR_RESPONSE_SUBSCRIPTION_PATH_2) - 1) res_ptr;
          res_ptr = copy unique_name unique_name_len res_ptr;
          res_ptr = copy STR_RESPONSE_SUBSCRIPTION_PATH_3
                      (length (c_mem STR_RESPONSE_SUBSCRIPTION_PATH_3) - 1) res_ptr
      in res_ptr)"

text \<open>
  \<open>Unsubscribe\<close>: the error the bus reports for the removal is freed unread. Both callers
  test \<open>sub_cmd\<close> first, so the branch for a null \<open>sub_cmd\<close> is never taken.
\<close>

definition Unsubscribe ::
  "dbus_env \<Rightarrow> DBusSignalSubscriptionHandler \<Rightarrow> nfd_state
     \<Rightarrow> DBusSignalSubscriptionHandler \<times> nfd_state" where
  "Unsubscribe env this st =
     (case sub_cmd this of
        None \<Rightarrow> (this, st)
      | Some cmd \<Rightarrow>
          (let err = remove_match_error env cmd;
               st = bus_called (RemoveMatch cmd) st
           in (this\<lparr>sub_cmd := None\<rparr>, st)))"

definition Subscribe ::
  "dbus_env \<Rightarrow> string \<Rightarrow> DBusSignalSubscriptionHandler \<Rightarrow> nfd_state
     \<Rightarrow> nfdresult_t \<times> DBusSignalSubscriptionHandler \<times> nfd_state" where
  "Subscribe env handle_path this st =
     (let unsub = (if sub_cmd this \<noteq> None then Unsubscribe env this st else (this, st));
          this = fst unsub; st = snd unsub;
          cmd = MakeResponseSubscriptionPath handle_path (dbus_unique_name env);
          this = this\<lparr>sub_cmd := Some cmd\<rparr>;
          st = bus_called (AddMatch cmd) st
      in case add_match_error env cmd of
           Some message \<Rightarrow> (NFD_ERROR, this, NFDi_SetError message st)
         | None \<Rightarrow> (NFD_OKAY, this, st))"

text \<open>The destructor of the handler.\<close>

definition destroy_subscription ::
  "dbus_env \<Rightarrow> DBusSignalSubscriptionHandler \<Rightarrow> nfd_state \<Rightarrow> nfd_state" where
  "destroy_subscription env this st =
     (if sub_cmd this \<noteq> None then snd (Unsubscribe env this st) else st)"

subsection \<open>Request encoder\<close>

text \<open>
  An appending iterator is the position of its container in the message body: the indices
  leading to it from the top level, which is \<open>[]\<close>.
\<close>

fun upd_items :: "nat list \<Rightarrow> (wnode list \<Rightarrow> wnode list) \<Rightarrow> wnode list \<Rightarrow> wnode list" where
  "upd_items [] f items = f items"
| "upd_items (i # iter) f items =
     (if i < length items then
        (case items ! i of
           WBasic v \<Rightarrow> items
         | WContainer t sg closed sub \<Rightarrow> items[i := WContainer t sg closed (upd_items iter f sub)])
      else items)"

fun items_at :: "nat list \<Rightarrow> wnode list \<Rightarrow> wnode list" where
  "items_at [] items = items"
| "items_at (i # iter) items =
     (if i < length items then
        (case items ! i of
           WBasic v \<Rightarrow> []
         | WContainer t sg closed sub \<Rightarrow> items_at iter sub)
      else [])"

definition dbus_message_iter_append_basic :: "nat list \<Rightarrow> dbus_value \<Rightarrow> wnode list \<Rightarrow> wnode list" where
  "dbus_message_iter_append_basic iter v body = upd_items iter (\<lambda>items. items @ [WBasic v]) body"

text \<open>Returns the body and the iterator of the new container.\<close>

definition dbus_message_iter_open_container ::
  "nat list \<Rightarrow> dbus_type \<Rightarrow> string \<Rightarrow> wnode list \<Rightarrow> wnode list \<times> nat list" where
  "dbus_message_iter_open_container iter t contained_signature body =
     (upd_items iter (\<lambda>items. items @ [WContainer t contained_signature False []]) body,
      iter @ [length (items_at iter body)])"

definition close_item :: "nat \<Rightarrow> wnode list \<Rightarrow> wnode list" where
  "close_item k items =
     (if k < length items then
        (case items ! k of
           WBasic v \<Rightarrow> items
         | WContainer t sg closed sub \<Rightarrow> items[k := WContainer t sg True sub])
      else items)"

definition dbus_message_iter_close_container :: "nat list \<Rightarrow> nat list \<Rightarrow> wnode list \<Rightarrow> wnode list" where
  "dbus_message_iter_close_container iter sub body =
     (if sub = [] then body else upd_items iter (close_item (last sub)) body)"

text \<open>
  The value a finished tree stands for: every container must have been closed, and a
  variant holds one value.
\<close>

fun finish :: "wnode \<Rightarrow> dbus_value option" where
  "finish (WBasic v) = Some v"
| "finish (WContainer t sg closed items) =
     (if \<not> closed then None
      else (case those (map finish items) of
              None \<Rightarrow> None
            | Some vs \<Rightarrow>
                (if t = DBUS_TYPE_ARRAY then Some (DBUS_ARRAY vs)
                 else if t = DBUS_TYPE_STRUCT then Some (DBUS_STRUCT vs)
                 else if t = DBUS_TYPE_DICT_ENTRY then Some (DBUS_DICT_ENTRY vs)
                 else if t = DBUS_TYPE_VARIANT \<and> length vs = 1 then Some (DBUS_VARIANT (hd vs))
                 else None)))"

text \<open>
  Memory whose bytes may be uninitialised (\<open>None\<close>), as \<open>alloca\<close> returns it. Reading a C
  string from it ends at the first NUL; reading an uninitialised byte, or past the buffer
  or the object, is undefined behaviour, as is reading through a null pointer or a pointer
  into memory that has been released.
\<close>

datatype undefined_behaviour =
  UninitialisedRead | ReadPastBuffer | UseAfterFree | NullDereference

definition alloca :: "nat \<Rightarrow> char option list" where
  "alloca n = replicate n None"

definition store :: "char option list \<Rightarrow> char list \<Rightarrow> char option list" where
  "store buf written = map Some written @ drop (length written) buf"

fun read_c_string :: "char option list \<Rightarrow> undefined_behaviour + string" where
  "read_c_string [] = Inl ReadPastBuffer"
| "read_c_string (None # m) = Inl UninitialisedRead"
| "read_c_string (Some ch # m) =
     (if ch = NUL then Inr []
      else (case read_c_string m of Inl ub \<Rightarrow> Inl ub | Inr str \<Rightarrow> Inr (ch # str)))"

text \<open>\<open>*p\<close> for a pointer at offset \<open>i\<close> of a C string.\<close>

definition char_at :: "string \<Rightarrow> nat \<Rightarrow> undefined_behaviour + char" where
  "char_at str i =
     (if i < length str then Inr (str ! i)
      else if i = length str then Inr NUL
      else Inl ReadPastBuffer)"

record nfdnfilteritem_t =
  name :: string
  spec :: string

definition STR_EMPTY :: string where "STR_EMPTY = []"
definition STR_OPEN_FILE :: string where "STR_OPEN_FILE = ''Open File''"
definition STR_HANDLE_TOKEN :: string where "STR_HANDLE_TOKEN = ''handle_token''"
definition STR_MULTIPLE :: string where "STR_MULTIPLE = ''multiple''"
definition STR_FILTERS :: string where "STR_FILTERS = ''filters''"

definition AppendOpenFileQueryDictEntryHandleToken :: "nat list \<Rightarrow> string \<Rightarrow> wnode list \<Rightarrow> wnode list" where
  "AppendOpenFileQueryDictEntryHandleToken sub_iter handle_token body =
     (let opened = dbus_message_iter_open_container sub_iter DBUS_TYPE_DICT_ENTRY [] body;
          body = fst opened; sub_sub_iter = snd opened;
          body = dbus_message_iter_append_basic sub_sub_iter (DBUS_STRING STR_HANDLE_TOKEN) body;
          opened = dbus_message_iter_open_container sub_sub_iter DBUS_TYPE_VARIANT ''s'' body;
          body = fst opened; variant_iter = snd opened;
          body = dbus_message_iter_append_basic variant_iter (DBUS_STRING handle_token) body;
          body = dbus_message_iter_close_container sub_sub_iter variant_iter body;
          body = dbus_message_iter_close_container sub_iter sub_sub_iter body
      in body)"

text \<open>Reading \<open>n\<close> bytes at the address of an object, given the bytes of the object.\<close>

definition read_bytes :: "nat \<Rightarrow> 8 word list \<Rightarrow> undefined_behaviour + 8 word list" where
  "read_bytes n object = (if n \<le> length object then Inr (take n object) else Inl ReadPastBuffer)"

text \<open>
  The template parameter \<open>Multiple\<close> is the first argument. The local \<open>bool b\<close> is one
  byte; for \<open>DBUS_TYPE_BOOLEAN\<close> the library reads a \<open>dbus_bool_t\<close>, four bytes, at the address
  it is given.
\<close>

definition AppendOpenFileQueryDictEntryMultiple ::
  "bool \<Rightarrow> nat list \<Rightarrow> wnode list \<Rightarrow> undefined_behaviour + wnode list" where
  "AppendOpenFileQueryDictEntryMultiple Multiple sub_iter body =
     (if Multiple then
        (let opened = dbus_message_iter_open_container sub_iter DBUS_TYPE_DICT_ENTRY [] body;
             body = fst opened; sub_sub_iter = snd opened;
             body = dbus_message_iter_append_basic sub_sub_iter (DBUS_STRING STR_MULTIPLE) body;
             opened = dbus_message_iter_open_container sub_sub_iter DBUS_TYPE_VARIANT ''b'' body;
             body = fst opened; variant_iter = snd opened;
             b = [1 :: 8 word]
         in case read_bytes 4 b of
              Inl ub \<Rightarrow> Inl ub
            | Inr bytes \<Rightarrow>
                Inr (dbus_message_iter_close_container sub_iter sub_sub_iter
                       (dbus_message_iter_close_container sub_sub_iter variant_iter
                          (dbus_message_iter_append_basic variant_iter
                             (DBUS_BOOLEAN (bytes \<noteq> [0, 0, 0, 0])) body))))
      else Inr body)"

text \<open>
  The inner \<open>do ... while\<close>: \<open>extn_end\<close> is an offset into the spec; the result is the offset
  at which the scan stops.
\<close>

function do_scan :: "string \<Rightarrow> nat \<Rightarrow> undefined_behaviour + nat" where
  "do_scan str extn_end =
     (case char_at str (extn_end + 1) of
        Inl ub \<Rightarrow> Inl ub
      | Inr ch \<Rightarrow>
          (if ch \<noteq> CHR '','' \<and> ch \<noteq> NUL then do_scan str (extn_end + 1)
           else Inr (extn_end + 1)))"
  by pat_completeness auto
termination
  by (relation "measure (\<lambda>(str, extn_end). length str + 1 - extn_end)")
     (auto simp: char_at_def split: if_splits)

declare do_scan.simps [simp del]

text \<open>
  The \<open>while (true)\<close> over the extensions of one filter. \<open>DBUS_TYPE_TUPLE\<close> and
  \<open>DBUS_TYPE_UNSIGNED\<close> are not names of the bus library; they are read as the struct and
  the 32-bit unsigned type that the signature strings \<open>(us)\<close> name.
\<close>

function extensions_loop ::
  "string \<Rightarrow> nat \<Rightarrow> nat list \<Rightarrow> nat list \<Rightarrow> wnode list \<Rightarrow> undefined_behaviour + wnode list" where
  "extensions_loop str extn_begin filter_list_tuple_iter filter_sublist_iter body =
     (let opened = dbus_message_iter_open_container filter_sublist_iter DBUS_TYPE_STRUCT ''us'' body;
          body = fst opened; filter_sublist_tuple_iter = snd opened;
          zero = 0;
          body = dbus_message_iter_append_basic filter_list_tuple_iter (DBUS_UINT32 zero) body
      in case do_scan str extn_begin of
           Inl ub \<Rightarrow> Inl ub
         | Inr extn_end \<Rightarrow>
             (case char_at str extn_end of
                Inl ub \<Rightarrow> Inl ub
              | Inr ch \<Rightarrow>
                  (if ch = NUL then
                     Inr (dbus_message_iter_append_basic filter_list_tuple_iter
                            (DBUS_STRING (drop extn_begin str)) body)
                   else
                     (let buf = alloca (extn_end - extn_begin + 1);
                          buf = store buf (copy (drop extn_begin str) (extn_end - extn_begin) [])
                      in case read_c_string buf of
                           Inl ub \<Rightarrow> Inl ub
                         | Inr appended \<Rightarrow>
                             extensions_loop str (extn_end + 1) filter_list_tuple_iter
                               filter_sublist_iter
                               (dbus_message_iter_close_container filter_sublist_iter
                                  filter_sublist_tuple_iter
                                  (dbus_message_iter_append_basic filter_list_tuple_iter
                                     (DBUS_STRING appended) body))))))"
  by pat_completeness auto
termination
proof -
  have scan_moves: "do_scan str e = Inr e' \<Longrightarrow> e < e'" for str e e'
    by (induction str e rule: do_scan.induct)
       (subst (asm) do_scan.simps, auto split: sum.splits if_splits)
  show ?thesis
    by (relation "measure (\<lambda>(str, extn_begin, a, b, c). length str + 1 - extn_begin)")
       (auto dest!: scan_moves simp: char_at_def NUL_def split: if_splits)
qed

declare extensions_loop.simps [simp del]

fun filters_loop ::
  "nfdnfilteritem_t list \<Rightarrow> nat list \<Rightarrow> wnode list \<Rightarrow> undefined_behaviour + wnode list" where
  "filters_loop [] filter_list_iter body = Inr body"
| "filters_loop (item # filterList) filter_list_iter body =
     (let opened = dbus_message_iter_open_container filter_list_iter DBUS_TYPE_STRUCT ''sa(us)'' body;
          body = fst opened; filter_list_tuple_iter = snd opened;
          body = dbus_message_iter_append_basic filter_list_tuple_iter (DBUS_STRING (name item)) body;
          opened = dbus_message_iter_open_container filter_list_tuple_iter DBUS_TYPE_ARRAY ''(us)'' body;
          body = fst opened; filter_sublist_iter = snd opened
      in case extensions_loop (spec item) 0 filter_list_tuple_iter filter_sublist_iter body of
           Inl ub \<Rightarrow> Inl ub
         | Inr body \<Rightarrow>
             filters_loop filterList filter_list_iter
               (dbus_message_iter_close_container filter_list_iter filter_list_tuple_iter
                  (dbus_message_iter_close_container filter_list_tuple_iter filter_sublist_iter
                     body)))"

definition AppendOpenFileQueryDictEntryFilters ::
  "nat list \<Rightarrow> nfdnfilteritem_t list \<Rightarrow> wnode list \<Rightarrow> undefined_behaviour + wnode list" where
  "AppendOpenFileQueryDictEntryFilters sub_iter filterList body =
     (let opened = dbus_message_iter_open_container sub_iter DBUS_TYPE_DICT_ENTRY [] body;
          body = fst opened; sub_sub_iter = snd opened;
          body = dbus_message_iter_append_basic sub_sub_iter (DBUS_STRING STR_FILTERS) body;
          opened = dbus_message_iter_open_container sub_sub_iter DBUS_TYPE_VARIANT ''a(sa(us))'' body;
          body = fst opened; variant_iter = snd opened;
          opened = dbus_message_iter_open_container variant_iter DBUS_TYPE_ARRAY ''(sa(us))'' body;
          body = fst opened; filter_list_iter = snd opened
      in case filters_loop filterList filter_list_iter body of
           Inl ub \<Rightarrow> Inl ub
         | Inr body \<Rightarrow>
             Inr (dbus_message_iter_close_container sub_iter sub_sub_iter
                    (dbus_message_iter_close_container sub_sub_iter variant_iter
                       (dbus_message_iter_close_container variant_iter filter_list_iter body))))"

definition AppendOpenFileQueryParams ::
  "bool \<Rightarrow> string \<Rightarrow> nfdnfilteritem_t list \<Rightarrow> wnode list \<Rightarrow> undefined_behaviour + wnode list" where
  "AppendOpenFileQueryParams Multiple handle_token filterList query =
     (let iter = [];
          body = dbus_message_iter_append_basic iter (DBUS_STRING STR_EMPTY) query;
          body = dbus_message_iter_append_basic iter (DBUS_STRING STR_OPEN_FILE) body;
          opened = dbus_message_iter_open_container iter DBUS_TYPE_ARRAY ''{sv}'' body;
          body = fst opened; sub_iter = snd opened;
          body = AppendOpenFileQueryDictEntryHandleToken sub_iter handle_token body
      in case AppendOpenFileQueryDictEntryMultiple Multiple sub_iter body of
           Inl ub \<Rightarrow> Inl ub
         | Inr body \<Rightarrow>
             (case (if length filterList \<noteq> 0
                    then AppendOpenFileQueryDictEntryFilters sub_iter filterList body
                    else Inr body) of
                Inl ub \<Rightarrow> Inl ub
              | Inr body \<Rightarrow> Inr (dbus_message_iter_close_container iter sub_iter body)))"

text \<open>
  The wire value of a \<open>filters\<close> entry for the given groups of (tag, pattern) pairs, as the
  interface describes it: \<open>a(sa(us))\<close> in a variant.
\<close>

definition filters_wire :: "(string \<times> (32 word \<times> string) list) list \<Rightarrow> dbus_value" where
  "filters_wire groups =
     DBUS_DICT_ENTRY
       [DBUS_STRING ''filters'',
        DBUS_VARIANT
          (DBUS_ARRAY
             (map (\<lambda>(group, patterns).
                     DBUS_STRUCT
                       [DBUS_STRING group,
                        DBUS_ARRAY
                          (map (\<lambda>(tag, pattern). DBUS_STRUCT [DBUS_UINT32 tag, DBUS_STRING pattern])
                             patterns)])
                groups))]"

subsection \<open>Dialog orchestrator\<close>

definition dbus_message_is_signal :: "DBusMessage \<Rightarrow> string \<Rightarrow> string \<Rightarrow> bool" where
  "dbus_message_is_signal msg iface signal_name \<longleftrightarrow>
     msg_type msg = SIGNAL \<and> msg_interface msg = iface \<and> msg_member msg = signal_name"

definition dbus_connection_pop_message :: "nfd_state \<Rightarrow> DBusMessage option \<times> nfd_state" where
  "dbus_connection_pop_message st =
     (case incoming st of
        [] \<Rightarrow> (None, bus_called PopMessage st)
      | msg # queue \<Rightarrow> (Some msg, bus_called PopMessage (st\<lparr>incoming := queue\<rparr>)))"

text \<open>One blocking read with a given outcome.\<close>

fun dbus_connection_read_write :: "transport_event \<Rightarrow> nfd_state \<Rightarrow> bool \<times> nfd_state" where
  "dbus_connection_read_write (Traffic msgs) st =
     (True, bus_called ReadWrite (st\<lparr>incoming := incoming st @ msgs\<rparr>))"
| "dbus_connection_read_write Disconnected st = (False, bus_called ReadWrite st)"

text \<open>
  The local \<open>file\<close> of the dialog function. \<open>ReadResponseParamsSingle\<close> sets it to a string
  owned by the message it reads, and the guard \<open>msg_guard\<close> of the inner loop's body releases
  that message whenever the body is left. So \<open>file\<close> is null, or points into a message that
  is still alive (inside the body), or points into a released message; the string is what
  the message held.
\<close>

datatype message_string = NullPointer | InLiveMessage string | InReleasedMessage string

text \<open>The pointer as handed to, and as left by, \<open>ReadResponseParamsSingle\<close>.\<close>

fun pointer_value :: "message_string \<Rightarrow> string option" where
  "pointer_value NullPointer = None"
| "pointer_value (InLiveMessage s) = Some s"
| "pointer_value (InReleasedMessage s) = Some s"

fun into_popped_message :: "string option \<Rightarrow> message_string" where
  "into_popped_message None = NullPointer"
| "into_popped_message (Some s) = InLiveMessage s"

text \<open>The destructor of \<open>msg_guard\<close>: the popped message is released.\<close>

fun msg_guard_destroyed :: "message_string \<Rightarrow> message_string" where
  "msg_guard_destroyed NullPointer = NullPointer"
| "msg_guard_destroyed (InLiveMessage s) = InReleasedMessage s"
| "msg_guard_destroyed (InReleasedMessage s) = InReleasedMessage s"

text \<open>Reading the string that \<open>file\<close> points to.\<close>

fun read_message_string :: "message_string \<Rightarrow> undefined_behaviour + string" where
  "read_message_string NullPointer = Inl NullDereference"
| "read_message_string (InLiveMessage s) = Inr s"
| "read_message_string (InReleasedMessage s) = Inl UseAfterFree"

text \<open>
  The inner \<open>while (true)\<close>: \<open>Some res\<close> is the \<open>return res\<close> in it, \<open>None\<close> is leaving it by
  one of its two \<open>break\<close>s. Both ways of leaving the body after a Response destroy the
  guard of its message.
\<close>

function pop_loop ::
  "message_string \<Rightarrow> nfd_state \<Rightarrow> nfdresult_t option \<times> message_string \<times> nfd_state" where
  "pop_loop file st =
     (let popped = dbus_connection_pop_message st; st' = snd popped in
      case fst popped of
        None \<Rightarrow> (None, file, st')
      | Some msg \<Rightarrow>
          (if dbus_message_is_signal msg ''org.freedesktop.portal.Request'' ''Response'' then
             (let r = ReadResponseParamsSingle msg (pointer_value file) st';
                  file' = into_popped_message (fst (snd r))
              in if fst r \<noteq> NFD_OKAY
                 then (Some (fst r), msg_guard_destroyed file', snd (snd r))
                 else (None, msg_guard_destroyed file', snd (snd r)))
           else pop_loop file st'))"
  by pat_completeness auto
termination
  by (relation "measure (\<lambda>(file, st). length (incoming st))")
     (auto simp: dbus_connection_pop_message_def bus_called_def split: list.splits)

declare pop_loop.simps [simp del]

datatype wait_result = Return nfdresult_t | LoopLeft | NeverReturns

text \<open>The \<open>do ... while\<close> around it, given the outcomes of the blocking reads still to come.\<close>

fun wait_loop ::
  "transport_event list \<Rightarrow> message_string \<Rightarrow> nfd_state
     \<Rightarrow> wait_result \<times> message_string \<times> nfd_state" where
  "wait_loop events file st =
     (case pop_loop file st of
        (Some res, file', st') \<Rightarrow> (Return res, file', st')
      | (None, file', st') \<Rightarrow>
          (if file' \<noteq> NullPointer then (LoopLeft, file', st')
           else (case events of
                   [] \<Rightarrow> (NeverReturns, file', bus_called ReadWrite st')
                 | ev # events' \<Rightarrow>
                     (case dbus_connection_read_write ev st' of
                        (False, st'') \<Rightarrow> (LoopLeft, file', st'')
                      | (True, st'') \<Rightarrow> wait_loop events' file' st''))))"

declare wait_loop.simps [simp del]

text \<open>
  How a call of the dialog ends: it returns, or it waits in a blocking read for ever, or
  its behaviour is undefined from some point on (the state is then the one reached before
  that point).
\<close>

datatype outcome = Returned nfdresult_t | Blocked | Undefined undefined_behaviour

text \<open>Returning from the dialog function: the handler \<open>signal_sub\<close> is destroyed.\<close>

definition leave ::
  "dbus_env \<Rightarrow> nfdresult_t \<Rightarrow> char list option \<Rightarrow> DBusSignalSubscriptionHandler \<Rightarrow> nfd_state
     \<Rightarrow> outcome \<times> char list option \<times> nfd_state" where
  "leave env res outPath signal_sub st =
     (Returned res, outPath, destroy_subscription env signal_sub st)"

text \<open>The block that checks the reply and updates the subscription.\<close>

definition update_subscription ::
  "dbus_env \<Rightarrow> string \<Rightarrow> string \<Rightarrow> DBusSignalSubscriptionHandler \<Rightarrow> nfd_state
     \<Rightarrow> DBusSignalSubscriptionHandler \<times> nfd_state" where
  "update_subscription env path handle_obj_path signal_sub st =
     (if path \<noteq> handle_obj_path then snd (Subscribe env path signal_sub st)
      else (signal_sub, st))"

text \<open>
  From \<open>Wait and read the response\<close> to the end of the function. \<open>AllocAndCopyFIlePath\<close> reads
  the string that \<open>file\<close> points to.
\<close>

definition wait_and_resolve ::
  "dbus_env \<Rightarrow> char list option \<Rightarrow> DBusSignalSubscriptionHandler \<Rightarrow> nfd_state
     \<Rightarrow> outcome \<times> char list option \<times> nfd_state" where
  "wait_and_resolve env outPath signal_sub st =
     (case wait_loop (traffic env) NullPointer st of
        (Return res, file, st') \<Rightarrow> leave env res outPath signal_sub st'
      | (NeverReturns, file, st') \<Rightarrow> (Blocked, outPath, st')
      | (LoopLeft, file, st') \<Rightarrow>
          (if file = NullPointer then
             leave env NFD_ERROR outPath signal_sub
               (NFDi_SetError ''D-Bus freedesktop portal did not give us a reply.'' st')
           else
             (case read_message_string file of
                Inl ub \<Rightarrow> (Undefined ub, outPath, st')
              | Inr fileUri \<Rightarrow>
                  (case AllocAndCopyFIlePath fileUri outPath st' of
                     (res, outPath', st'') \<Rightarrow> leave env res outPath' signal_sub st''))))"

definition dbus_message_new_method_call :: "string \<Rightarrow> string \<Rightarrow> string \<Rightarrow> string \<Rightarrow> method_call" where
  "dbus_message_new_method_call destination path iface method =
     \<lparr>call_destination = destination, call_path = path, call_interface = iface,
        call_method = method, call_body = []\<rparr>"

text \<open>The query as \<open>dbus_message_new_method_call\<close> returns it, before the parameters are appended.\<close>

definition OpenFile_call :: method_call where
  "OpenFile_call =
     dbus_message_new_method_call ''org.freedesktop.portal.Desktop''
       ''/org/freedesktop/portal/desktop'' ''org.freedesktop.portal.FileChooser'' ''OpenFile''"

text \<open>
  \<open>None\<close>: the list of \<open>getrandom\<close> outcomes ends before the token generator does. The
  filter count is the length of the filter list; \<open>defaultPath\<close> is not used.
\<close>

definition NFD_OpenDialogN ::
  "dbus_env \<Rightarrow> char list option \<Rightarrow> nfdnfilteritem_t list \<Rightarrow> nfd_state
     \<Rightarrow> (outcome \<times> char list option \<times> nfd_state) option" where
  "NFD_OpenDialogN env outPath filterList st =
     (case MakeUniqueObjectPath (dbus_unique_name env) (entropy env) of
        None \<Rightarrow> None
      | Some (handle_obj_path, token_offset) \<Rightarrow>
          Some
            (let handle_token_ptr = drop token_offset handle_obj_path;
                 signal_sub = \<lparr>sub_cmd = None\<rparr>
             in case Subscribe env handle_obj_path signal_sub st of
                  (res, signal_sub, st) \<Rightarrow>
                    if res \<noteq> NFD_OKAY then leave env res outPath signal_sub st
                    else
                      (case AppendOpenFileQueryParams False handle_token_ptr filterList
                              (call_body OpenFile_call) of
                         Inl ub \<Rightarrow> (Undefined ub, outPath, st)
                       | Inr body \<Rightarrow>
                           (let query = OpenFile_call\<lparr>call_body := body\<rparr>;
                                st = bus_called (SendWithReplyAndBlock query) st
                            in case call_reply env query of
                                 Inl message \<Rightarrow>
                                   leave env NFD_ERROR outPath signal_sub (NFDi_SetError message st)
                               | Inr reply \<Rightarrow>
                                   (let init = dbus_message_iter_init reply; iter = snd init in
                                    if \<not> fst init then
                                      leave env NFD_ERROR outPath signal_sub
                                        (NFDi_SetError ''D-Bus reply is missing an argument.'' st)
                                    else if dbus_message_iter_get_arg_type iter
                                              \<noteq> DBUS_TYPE_OBJECT_PATH then
                                      leave env NFD_ERROR outPath signal_sub
                                        (NFDi_SetError ''D-Bus reply is not an object path.'' st)
                                    else
                                      (let path = get_basic_string iter;
                                           updated = update_subscription env path handle_obj_path
                                                       signal_sub st
                                       in wait_and_resolve env outPath (fst updated)
                                            (snd updated)))))))"

text \<open>
  A structural mismatch at an unwrap step of an entry, with the error it is reported by:
  the entry does not start with a string, it has no value after the key, or the value is
  not a variant.
\<close>

definition malformed_entry :: "dbus_value \<Rightarrow> string option" where
  "malformed_entry entry =
     (case entry of
        DBUS_DICT_ENTRY de_iter \<Rightarrow>
          (if dbus_message_iter_get_arg_type de_iter \<noteq> DBUS_TYPE_STRING then
             Some ''D-Bus response signal dict entry does not start with a string.''
           else if tl de_iter = [] then
             Some ''D-Bus response signal dict entry is missing one or more arguments.''
           else if dbus_message_iter_get_arg_type (tl de_iter) \<noteq> DBUS_TYPE_VARIANT then
             Some ''D-Bus response signal dict entry value is not a variant.''
           else None)
      | _ \<Rightarrow> None)"

subsection \<open>Example environments\<close>

definition initial_state :: nfd_state where
  "initial_state = \<lparr>err_ptr = None, bus_log = [], incoming = []\<rparr>"

definition Response :: "dbus_value list \<Rightarrow> DBusMessage" where
  "Response body =
     \<lparr>msg_type = SIGNAL, msg_path = ''/org/freedesktop/portal/desktop/request/1_42/t'',
        msg_interface = ''org.freedesktop.portal.Request'', msg_member = ''Response'',
        msg_body = body\<rparr>"

definition bytes_0_to_31 :: "8 word list" where
  "bytes_0_to_31 =
     [0, 1, 2, 3, 4, 5, 6, 7, 8, 9, 10, 11, 12, 13, 14, 15, 16, 17, 18, 19, 20, 21, 22, 23,
      24, 25, 26, 27, 28, 29, 30, 31]"

text \<open>
  A portal that accepts every match rule and answers the call with the given handle, on a
  connection named \<open>:1.42\<close> with the given outcomes of the blocking reads.
\<close>

definition example_portal :: "string \<Rightarrow> transport_event list \<Rightarrow> dbus_env" where
  "example_portal handle events =
     \<lparr>dbus_unique_name = '':1.42'',
        add_match_error = (\<lambda>rule. None),
        remove_match_error = (\<lambda>rule. None),
        call_reply = (\<lambda>query. Inr \<lparr>msg_type = METHOD_RETURN, msg_path = [], msg_interface = [],
                                      msg_member = [], msg_body = [DBUS_OBJECT_PATH handle]\<rparr>),
        traffic = events,
        entropy = [Bytes bytes_0_to_31]\<rparr>"

text \<open>A bus that refuses every match rule.\<close>

definition refusing_bus :: dbus_env where
  "refusing_bus =
     (example_portal [] [])\<lparr>add_match_error := (\<lambda>rule. Some ''Match rule refused'')\<rparr>"

text \<open>
  The token and the path that the token generator and the address builder make of these
  bytes, and the body of the query for that token and no filter.
\<close>

definition example_token :: string where
  "example_token = ''AABACADAEAFAGAHAIAJAKALAMANAOAPAABBBCBDBEBFBGBHBIBJBKBLBMBNBOBPB''"

definition example_body :: "wnode list" where
  "example_body =
     [WBasic (DBUS_STRING []), WBasic (DBUS_STRING ''Open File''),
      WContainer DBUS_TYPE_ARRAY ''{sv}'' True
        [WContainer DBUS_TYPE_DICT_ENTRY [] True
           [WBasic (DBUS_STRING ''handle_token''),
            WContainer DBUS_TYPE_VARIANT ''s'' True [WBasic (DBUS_STRING example_token)]]]]"

definition example_handle :: string where
  "example_handle =
     ''/org/freedesktop/portal/desktop/request/1_42/AABACADAEAFAGAHAIAJAKALAMANAOAPAABBBCBDBEBFBGBHBIBJBKBLBMBNBOBPB''"

section \<open>Properties\<close>

subsection \<open>Token generator\<close>

lemma unat_low_nibble: "unat ((b :: 8 word) AND 15) \<le> 15"
  using word_and_le1 [of b 15] by (simp add: word_le_nat_alt)

lemma unat_high_nibble: "unat (drop_bit 4 (b :: 8 word)) \<le> 15"
proof -
  have "unat (drop_bit 4 b) = unat b div 2 ^ 4"
    by (simp add: drop_bit_eq_div unat_div)
  moreover have "unat b < 2 ^ LENGTH(8)" by (rule unsigned_less)
  ultimately show ?thesis by simp
qed

lemma char_of_A_to_P: "k \<le> 15 \<Longrightarrow> char_of (65 + k :: nat) \<in> set ''ABCDEFGHIJKLMNOP''"
proof -
  have "\<forall>k\<in>{0..<16}. char_of (65 + k :: nat) \<in> set ''ABCDEFGHIJKLMNOP''"
    by code_simp
  moreover assume "k \<le> 15"
  ultimately show ?thesis by simp
qed

lemma encode_byte_A_to_P: "set (encode_byte b) \<subseteq> set ''ABCDEFGHIJKLMNOP''"
  using char_of_A_to_P [OF unat_low_nibble [of b]] char_of_A_to_P [OF unat_high_nibble [of b]]
  by (simp add: encode_byte_def)

lemma length_concat_encode: "length (concat (map encode_byte bs)) = 2 * length bs"
  by (induction bs) (simp_all add: encode_byte_def)

lemma random_chars_loop_set:
  assumes A: "\<And>b. set (encode_byte b) \<subseteq> A"
  shows "random_chars_loop rs amount out = Some res \<Longrightarrow> set res \<subseteq> set out \<union> A"
proof (induction rs amount out rule: random_chars_loop.induct)
  case (1 amount out)
  then show ?case by (simp split: if_splits)
next
  case (2 r rs amount out)
  show ?case
  proof (cases "amount > 0")
    case False
    with 2(3) show ?thesis by auto
  next
    case True
    show ?thesis
    proof (cases r)
      case (Bytes bs)
      with True 2(3) have "random_chars_loop rs (amount - length (take amount bs))
             (out @ concat (map encode_byte (take amount bs))) = Some res"
        by (simp add: Let_def)
      from 2(1)[OF True Bytes refl refl this]
      show ?thesis using A by (auto dest: in_set_takeD)
    next
      case EINTR
      with True 2(3) 2(2) show ?thesis by simp
    next
      case Failed
      with True 2(3) show ?thesis by auto
    qed
  qed
qed

lemma random_chars_loop_length:
  "random_chars_loop rs amount out = Some res \<Longrightarrow>
   \<exists>k\<le>amount. length res = length out + 2 * k \<and> (Failed \<notin> set rs \<longrightarrow> k = amount)"
proof (induction rs amount out rule: random_chars_loop.induct)
  case (1 amount out)
  then show ?case by (simp split: if_splits)
next
  case (2 r rs amount out)
  show ?case
  proof (cases "amount > 0")
    case False
    with 2(3) show ?thesis by auto
  next
    case True
    show ?thesis
    proof (cases r)
      case (Bytes bs)
      with True 2(3) have "random_chars_loop rs (amount - length (take amount bs))
             (out @ concat (map encode_byte (take amount bs))) = Some res"
        by (simp add: Let_def)
      from 2(1)[OF True Bytes refl refl this] obtain k where
        k: "k \<le> amount - length (take amount bs)"
           "length res = length (out @ concat (map encode_byte (take amount bs))) + 2 * k"
           "Failed \<notin> set rs \<longrightarrow> k = amount - length (take amount bs)"
        by blast
      let ?m = "length (take amount bs)"
      have m: "?m \<le> amount" by simp
      then have "k + ?m \<le> amount" using k(1) by arith
      moreover have "length res = length out + 2 * (k + ?m)"
        using k(2) by (simp add: length_concat_encode)
      moreover have "Failed \<notin> set (r # rs) \<longrightarrow> k + ?m = amount"
        using k(3) Bytes m by auto
      ultimately show ?thesis by blast
    next
      case EINTR
      with True 2(3) 2(2) show ?thesis by simp
    next
      case Failed
      with True 2(3) show ?thesis by auto
    qed
  qed
qed

lemma random_chars_loop_returns:
  "Failed \<in> set rs \<or> amount \<le> sum_list (map offered rs) \<Longrightarrow>
   \<exists>res. random_chars_loop rs amount out = Some res"
proof (induction rs amount out rule: random_chars_loop.induct)
  case (1 amount out)
  then show ?case by simp
next
  case (2 r rs amount out)
  show ?case
  proof (cases "amount > 0")
    case False
    then show ?thesis by simp
  next
    case True
    show ?thesis
    proof (cases r)
      case (Bytes bs)
      have "Failed \<in> set rs \<or> amount - length (take amount bs) \<le> sum_list (map offered rs)"
        using 2(3) Bytes by auto
      from 2(1)[OF True Bytes refl refl this]
      show ?thesis using Bytes True by (simp add: Let_def)
    next
      case EINTR
      with True 2(3) 2(2) show ?thesis by simp
    next
      case Failed
      with True show ?thesis by simp
    qed
  qed
qed

lemma random_chars_loop_EINTR:
  "random_chars_loop (EINTR # rs) amount out = random_chars_loop rs amount out"
  by (cases rs) auto

text \<open>
  C10. Every character the token generator emits is one of the sixteen letters \<open>A\<close> to \<open>P\<close>:
  the low nibble and the high nibble of each entropy byte are each mapped to \<open>A\<close> plus the
  value of the nibble. So a token holds no digit, no lowercase letter, no underscore and no
  letter after \<open>P\<close>.
\<close>

theorem token_chars_A_to_P:
  "(Generate64RandomChars rs = Some out \<longrightarrow>
      (\<forall>c\<in>set out. c \<in> set ''ABCDEFGHIJKLMNOP'' \<and>
                     c \<notin> set ''QRSTUVWXYZabcdefghijklmnopqrstuvwxyz0123456789_'')) \<and>
   encode_byte b =
     [char_of (of_char CHR ''A'' + unat (b AND 15)), char_of (of_char CHR ''A'' + unat (drop_bit 4 b))] \<and>
   unat (b AND 15) < 16 \<and> unat (drop_bit 4 b) < 16"
proof -
  let ?A = "set ''ABCDEFGHIJKLMNOP''"
  let ?B = "set ''QRSTUVWXYZabcdefghijklmnopqrstuvwxyz0123456789_''"
  have sub: "set out \<subseteq> ?A" if "Generate64RandomChars rs = Some out"
  proof -
    have "random_chars_loop rs 32 [] = Some out"
      using that by (simp only: Generate64RandomChars_def)
    from random_chars_loop_set [of ?A, OF encode_byte_A_to_P this]
    show ?thesis by simp
  qed
  have disjoint: "\<forall>c\<in>?A. c \<notin> ?B"
    by code_simp
  have chars: "Generate64RandomChars rs = Some out \<longrightarrow> (\<forall>c\<in>set out. c \<in> ?A \<and> c \<notin> ?B)"
    using sub disjoint by blast
  have enc: "encode_byte b =
     [char_of (of_char CHR ''A'' + unat (b AND 15)), char_of (of_char CHR ''A'' + unat (drop_bit 4 b))]"
    by (simp only: encode_byte_def)
  have lo: "unat (b AND 15) < 16"
    using unat_low_nibble [of b] by simp
  have hi: "unat (drop_bit 4 b) < 16"
    using unat_high_nibble [of b] by simp
  from chars enc lo hi show ?thesis by (intro conjI)
qed

theorem token_chars_A_to_P_witness:
  "Generate64RandomChars [Bytes [0x12, 0xFE], Failed] = Some ''CBOP'' \<and>
   set ''CBOP'' \<subseteq> set ''ABCDEFGHIJKLMNOP'' \<and>
   set ''CBOP'' \<inter> set ''QRSTUVWXYZabcdefghijklmnopqrstuvwxyz0123456789_'' = {}"
proof -
  have run: "Generate64RandomChars [Bytes [0x12, 0xFE], Failed] = Some ''CBOP''"
    by code_simp
  have "\<forall>c\<in>set ''CBOP''. c \<in> set ''ABCDEFGHIJKLMNOP'' \<and>
      c \<notin> set ''QRSTUVWXYZabcdefghijklmnopqrstuvwxyz0123456789_''"
    using run token_chars_A_to_P [of "[Bytes [0x12, 0xFE], Failed]" "''CBOP''" 0]
    by (elim conjE impE)
  then show ?thesis
    using run by blast
qed

lemma letters_are_token_chars: "c \<in> set ''ABCDEFGHIJKLMNOP'' \<Longrightarrow> token_char c"
proof -
  have "\<forall>c\<in>set ''ABCDEFGHIJKLMNOP''. token_char c"
    by code_simp
  then show "c \<in> set ''ABCDEFGHIJKLMNOP'' \<Longrightarrow> token_char c" by blast
qed

text \<open>
  C8, amended. Every character the token generator appends matches \<open>[A-Za-z0-9_]\<close>, and
  it appends an even number of characters, at most 64: exactly 64 when no entropy read
  fails with an error other than \<open>EINTR\<close>. A read interrupted by \<open>EINTR\<close> is repeated
  with the same amount. At the first read that fails with any other error the generator
  stops and returns the characters appended so far. It returns whenever one read fails in
  that way or the reads deliver 32 bytes in total.
\<close>

theorem token_generator_up_to_64:
  "(Generate64RandomChars rs = Some out \<longrightarrow>
      (\<forall>c\<in>set out. token_char c) \<and> length out \<le> 64 \<and> even (length out) \<and>
      (Failed \<notin> set rs \<longrightarrow> length out = 64)) \<and>
   random_chars_loop (EINTR # rs) amount acc = random_chars_loop rs amount acc \<and>
   (0 < amount \<longrightarrow> random_chars_loop (Failed # rs) amount acc = Some acc) \<and>
   (Failed \<in> set rs \<or> 32 \<le> sum_list (map offered rs) \<longrightarrow>
      (\<exists>res. Generate64RandomChars rs = Some res))"
proof -
  have chars: "(\<forall>c\<in>set out. token_char c) \<and> length out \<le> 64 \<and> even (length out) \<and>
      (Failed \<notin> set rs \<longrightarrow> length out = 64)"
    if "Generate64RandomChars rs = Some out"
  proof -
    have run: "random_chars_loop rs 32 [] = Some out"
      using that by (simp only: Generate64RandomChars_def)
    from random_chars_loop_set [of "set ''ABCDEFGHIJKLMNOP''", OF encode_byte_A_to_P run]
    have "set out \<subseteq> set ''ABCDEFGHIJKLMNOP''" by simp
    then have "\<forall>c\<in>set out. token_char c"
      using letters_are_token_chars by blast
    moreover from random_chars_loop_length [OF run] obtain k where
      "k \<le> 32" "length out = 2 * k" "Failed \<notin> set rs \<longrightarrow> k = 32"
      by auto
    ultimately show ?thesis by auto
  qed
  have retry: "random_chars_loop (EINTR # rs) amount acc = random_chars_loop rs amount acc"
    by (rule random_chars_loop_EINTR)
  have stop: "0 < amount \<longrightarrow> random_chars_loop (Failed # rs) amount acc = Some acc"
    by simp
  have returns: "Failed \<in> set rs \<or> 32 \<le> sum_list (map offered rs) \<longrightarrow>
      (\<exists>res. Generate64RandomChars rs = Some res)"
    using random_chars_loop_returns [of rs 32 "[]"] by (simp only: Generate64RandomChars_def) blast
  from chars retry stop returns show ?thesis by blast
qed

theorem token_generator_up_to_64_witness:
  "Generate64RandomChars
     [EINTR, Bytes [0, 1, 2, 3, 4, 5, 6, 7, 8, 9, 10, 11, 12, 13, 14, 15, 16, 17, 18, 19, 20,
                    21, 22, 23, 24, 25, 26, 27, 28, 29, 30, 31]] =
     Some ''AABACADAEAFAGAHAIAJAKALAMANAOAPAABBBCBDBEBFBGBHBIBJBKBLBMBNBOBPB'' \<and>
   length ''AABACADAEAFAGAHAIAJAKALAMANAOAPAABBBCBDBEBFBGBHBIBJBKBLBMBNBOBPB'' = 64 \<and>
   set ''AABACADAEAFAGAHAIAJAKALAMANAOAPAABBBCBDBEBFBGBHBIBJBKBLBMBNBOBPB'' \<subseteq> Collect token_char \<and>
   random_chars_loop
     (Failed # [EINTR, Bytes [0, 1, 2, 3, 4, 5, 6, 7, 8, 9, 10, 11, 12, 13, 14, 15, 16, 17, 18,
                              19, 20, 21, 22, 23, 24, 25, 26, 27, 28, 29, 30, 31]])
     31 ''CB'' = Some ''CB''"
proof -
  let ?rs = "[EINTR, Bytes [0, 1, 2, 3, 4, 5, 6, 7, 8, 9, 10, 11, 12, 13, 14, 15, 16, 17, 18, 19, 20,
                    21, 22, 23, 24, 25, 26, 27, 28, 29, 30, 31 :: 8 word]]"
  let ?out = "''AABACADAEAFAGAHAIAJAKALAMANAOAPAABBBCBDBEBFBGBHBIBJBKBLBMBNBOBPB''"
  have run: "Generate64RandomChars ?rs = Some ?out"
    by code_simp
  have ok: "Failed \<notin> set ?rs"
    by simp
  have pos: "0 < (31 :: nat)"
    by simp
  note inst = token_generator_up_to_64 [of ?rs ?out 31 "''CB''"]
  from inst run ok have "(\<forall>c\<in>set ?out. token_char c) \<and> length ?out = 64"
    by blast
  moreover from inst pos have "random_chars_loop (Failed # ?rs) 31 ''CB'' = Some ''CB''"
    by blast
  ultimately show ?thesis
    using run by blast
qed

theorem token_generator_short_counterexample:
  "Generate64RandomChars [Bytes [0x12, 0xFE], Failed] = Some ''CBOP'' \<and> length ''CBOP'' \<noteq> 64"
  by code_simp

subsection \<open>Address builder\<close>



subsection \<open>Locator resolver\<close>

lemma prefix_loop_take_drop:
  "NUL \<notin> set p \<Longrightarrow>
   prefix_loop p s = (if take (length p) s = p then Some (drop (length p) s) else None)"
proof (induction p arbitrary: s)
  case Nil
  show ?case by simp
next
  case (Cons c p)
  then have c: "c \<noteq> NUL" and p: "NUL \<notin> set p" by auto
  show ?case
  proof (cases s)
    case Nil
    with c show ?thesis by simp
  next
    case (Cons d s')
    with Cons.IH [OF p, of s'] show ?thesis by auto
  qed
qed

text \<open>
  C2. The locator resolver succeeds exactly when the string begins with \<open>file://\<close>. It
  then returns a new buffer holding the remainder and its terminating NUL, and leaves the
  error alone; otherwise it fails, sets the error that the URI is not a file URI, and
  leaves the output path as it was.
\<close>

theorem file_uri_resolves_iff_prefix:
  "AllocAndCopyFIlePath fileUri outPath st =
     (if take 7 fileUri = ''file://''
      then (NFD_OKAY, Some (drop 7 fileUri @ [CHR 0x00]), st)
      else (NFD_ERROR, outPath,
            st\<lparr>err_ptr := Some ''D-Bus freedesktop portal returned a URI that is not a file URI.''\<rparr>)) \<and>
   AllocAndCopyFIlePath ''file:///tmp/a.txt'' outPath st =
     (NFD_OKAY, Some (''/tmp/a.txt'' @ [CHR 0x00]), st) \<and>
   fst (AllocAndCopyFIlePath ''http://example.com/a.txt'' outPath st) = NFD_ERROR \<and>
   fst (snd (AllocAndCopyFIlePath ''http://example.com/a.txt'' outPath st)) = outPath"
proof -
  have "NUL \<notin> set FILE_URI_PREFIX"
    by (simp add: FILE_URI_PREFIX_def NUL_def)
  from prefix_loop_take_drop [OF this]
  have "prefix_loop FILE_URI_PREFIX s =
      (if take (length FILE_URI_PREFIX) s = FILE_URI_PREFIX
       then Some (drop (length FILE_URI_PREFIX) s) else None)" for s .
  moreover have "length FILE_URI_PREFIX = 7"
    by (simp add: FILE_URI_PREFIX_def)
  ultimately have loop: "prefix_loop FILE_URI_PREFIX s =
      (if take 7 s = FILE_URI_PREFIX then Some (drop 7 s) else None)" for s
    by (simp only:)
  have general: "AllocAndCopyFIlePath uri outPath st =
     (if take 7 uri = ''file://''
      then (NFD_OKAY, Some (drop 7 uri @ [CHR 0x00]), st)
      else (NFD_ERROR, outPath,
            st\<lparr>err_ptr := Some ''D-Bus freedesktop portal returned a URI that is not a file URI.''\<rparr>))"
    for uri
    by (simp add: AllocAndCopyFIlePath_def loop copy_def c_mem_def NUL_def NFDi_SetError_def)
       (simp add: FILE_URI_PREFIX_def)
  show ?thesis
    by (simp add: general)
qed

theorem file_uri_resolves_iff_prefix_witness:
  "AllocAndCopyFIlePath ''file:///tmp/a.txt'' None \<lparr>err_ptr = None, bus_log = [], incoming = []\<rparr> =
     (NFD_OKAY, Some (''/tmp/a.txt'' @ [CHR 0x00]), \<lparr>err_ptr = None, bus_log = [], incoming = []\<rparr>) \<and>
   fst (AllocAndCopyFIlePath ''http://example.com/a.txt'' None
          \<lparr>err_ptr = None, bus_log = [], incoming = []\<rparr>) = NFD_ERROR"
  using file_uri_resolves_iff_prefix [of "''file:///tmp/a.txt''" None
          "\<lparr>err_ptr = None, bus_log = [], incoming = []\<rparr>"]
  by blast

subsection \<open>Response decoder\<close>

lemma ReadDictImpl_find:
  "ReadDictImpl key iter args c st =
     (case find (\<lambda>(k, h). k = key) args of
        None \<Rightarrow> (NFD_OKAY, c, st)
      | Some (k, h) \<Rightarrow> h iter c st)"
  by (induction args) auto

lemma ReadDict_loop_entries:
  "ReadDict_loop (map (\<lambda>(k, v). DBUS_DICT_ENTRY [DBUS_STRING k, DBUS_VARIANT v]) entries @ tail) args c st =
     (case decode_entries entries args c st of
        (NFD_ERROR, c', st') \<Rightarrow> (NFD_ERROR, c', st')
      | (res, c', st') \<Rightarrow> if tail = [] then (NFD_OKAY, c', st') else ReadDict_loop tail args c' st')"
proof (induction entries arbitrary: c st)
  case Nil
  show ?case by (cases tail) (simp_all add: ReadDict_loop.simps [of "[]"])
next
  case (Cons e entries)
  obtain k v where e: "e = (k, v)" by (cases e)
  show ?case
  proof (cases "find (\<lambda>(k', h). k' = k) args")
    case None
    show ?thesis
      using Cons.IH [of c st] None
      apply (subst ReadDict_loop.simps)
      apply (cases entries; cases tail)
       apply (simp_all add: e ReadDictImpl_find dbus_message_iter_next_def Let_def)
      done
  next
    case (Some kh)
    obtain k' h where kh: "kh = (k', h)" by (cases kh)
    obtain res c' st' where r: "h [v] c st = (res, c', st')" by (cases "h [v] c st")
    show ?thesis
      using Cons.IH [of c' st'] Some
      apply (subst ReadDict_loop.simps)
      apply (cases entries; cases tail; cases res)
       apply (simp_all add: e kh r ReadDictImpl_find dbus_message_iter_next_def Let_def)
      done
  qed
qed


lemma ReadDict_loop_malformed:
  "malformed_entry bad = Some message \<Longrightarrow>
   ReadDict_loop (bad # others) args c st = (NFD_ERROR, c, NFDi_SetError message st)"
  by (cases bad)
     (auto simp: malformed_entry_def dbus_message_iter_next_def Let_def
        ReadDict_loop.simps [of "_ # _"] split: if_splits)

lemma ReadDict_loop_stray:
  "dbus_type_of stray \<noteq> DBUS_TYPE_DICT_ENTRY \<Longrightarrow>
   ReadDict_loop (stray # following) args c st = (NFD_OKAY, c, st)"
  by (simp add: ReadDict_loop.simps [of "_ # _"])

text \<open>
  C6, amended. For a dictionary \<open>a{sv}\<close> and any ordered list of keys and handlers, the
  generic decoder gives each entry's unwrapped variant value to the first handler
  registered for the entry's key, skips an entry whose key has no handler and goes on, and
  returns an error as soon as a handler fails. It also returns an error at once when the
  argument is not an array, and at the first entry that does not start with a string,
  lacks its value, or whose value is not a variant. An array element that is not a dict
  entry is not reported: the decode ends there with success, keeping what the entries
  before it have given. The dictionary with \<open>uris\<close> and \<open>other\<close> and a handler for \<open>uris\<close>
  alone decodes to the URI.
\<close>

theorem ReadDict_dispatches_first_matching_handler:
  "ReadDict (dict_value entries # rest) handlers c st =
     (case decode_entries entries handlers c st of
        (NFD_ERROR, c', st') \<Rightarrow> (NFD_ERROR, c', st')
      | (res, c', st') \<Rightarrow> (NFD_OKAY, c', st')) \<and>
   ReadDict
     (dict_value [(''uris'', DBUS_ARRAY [DBUS_STRING ''file:///home/u/doc.txt'']),
                  (''other'', DBUS_UINT32 5)] # rest)
     [(''uris'', uris_callback)] file st = (NFD_OKAY, Some ''file:///home/u/doc.txt'', st) \<and>
   (dbus_message_iter_get_arg_type iter \<noteq> DBUS_TYPE_ARRAY \<longrightarrow>
      ReadDict iter handlers c st =
        (NFD_ERROR, c, NFDi_SetError ''D-Bus response signal argument is not an array.'' st)) \<and>
   (malformed_entry bad = Some message \<longrightarrow>
      ReadDict
        (DBUS_ARRAY (map (\<lambda>(k, v). DBUS_DICT_ENTRY [DBUS_STRING k, DBUS_VARIANT v]) entries
                       @ bad # others) # rest)
        handlers c st =
        (case decode_entries entries handlers c st of
           (NFD_ERROR, c', st') \<Rightarrow> (NFD_ERROR, c', st')
         | (res, c', st') \<Rightarrow> (NFD_ERROR, c', NFDi_SetError message st'))) \<and>
   (dbus_type_of stray \<noteq> DBUS_TYPE_DICT_ENTRY \<longrightarrow>
      ReadDict
        (DBUS_ARRAY (map (\<lambda>(k, v). DBUS_DICT_ENTRY [DBUS_STRING k, DBUS_VARIANT v]) entries
                       @ stray # following) # rest)
        handlers c st =
        (case decode_entries entries handlers c st of
           (NFD_ERROR, c', st') \<Rightarrow> (NFD_ERROR, c', st')
         | (res, c', st') \<Rightarrow> (NFD_OKAY, c', st')))"
proof -
  have dispatch: "ReadDict (dict_value es # rest) hs c0 s0 =
     (case decode_entries es hs c0 s0 of
        (NFD_ERROR, c', st') \<Rightarrow> (NFD_ERROR, c', st')
      | (res, c', st') \<Rightarrow> (NFD_OKAY, c', st'))" for es hs and c0 :: 'b and s0
    using ReadDict_loop_entries [of es "[]" hs c0 s0]
    by (simp add: ReadDict_def dict_value_def split: prod.splits nfdresult_t.splits)
  have example: "ReadDict
     (dict_value [(''uris'', DBUS_ARRAY [DBUS_STRING ''file:///home/u/doc.txt'']),
                  (''other'', DBUS_UINT32 5)] # rest)
     [(''uris'', uris_callback)] file st = (NFD_OKAY, Some ''file:///home/u/doc.txt'', st)"
    by (simp add: dispatch uris_callback_def)
  have not_array: "dbus_message_iter_get_arg_type iter \<noteq> DBUS_TYPE_ARRAY \<longrightarrow>
      ReadDict iter handlers c st =
        (NFD_ERROR, c, NFDi_SetError ''D-Bus response signal argument is not an array.'' st)"
    by (simp add: ReadDict_def)
  have mismatch: "malformed_entry bad = Some message \<longrightarrow>
      ReadDict
        (DBUS_ARRAY (map (\<lambda>(k, v). DBUS_DICT_ENTRY [DBUS_STRING k, DBUS_VARIANT v]) entries
                       @ bad # others) # rest)
        handlers c st =
        (case decode_entries entries handlers c st of
           (NFD_ERROR, c', st') \<Rightarrow> (NFD_ERROR, c', st')
         | (res, c', st') \<Rightarrow> (NFD_ERROR, c', NFDi_SetError message st'))"
  proof
    assume bad: "malformed_entry bad = Some message"
    obtain res c' st' where d: "decode_entries entries handlers c st = (res, c', st')"
      by (cases "decode_entries entries handlers c st")
    show "ReadDict
        (DBUS_ARRAY (map (\<lambda>(k, v). DBUS_DICT_ENTRY [DBUS_STRING k, DBUS_VARIANT v]) entries
                       @ bad # others) # rest)
        handlers c st =
        (case decode_entries entries handlers c st of
           (NFD_ERROR, c', st') \<Rightarrow> (NFD_ERROR, c', st')
         | (res, c', st') \<Rightarrow> (NFD_ERROR, c', NFDi_SetError message st'))"
      using ReadDict_loop_entries [of entries "bad # others" handlers c st]
            ReadDict_loop_malformed [OF bad, of others handlers c' st']
      by (cases res) (simp_all add: ReadDict_def d)
  qed
  have ends: "dbus_type_of stray \<noteq> DBUS_TYPE_DICT_ENTRY \<longrightarrow>
      ReadDict
        (DBUS_ARRAY (map (\<lambda>(k, v). DBUS_DICT_ENTRY [DBUS_STRING k, DBUS_VARIANT v]) entries
                       @ stray # following) # rest)
        handlers c st =
        (case decode_entries entries handlers c st of
           (NFD_ERROR, c', st') \<Rightarrow> (NFD_ERROR, c', st')
         | (res, c', st') \<Rightarrow> (NFD_OKAY, c', st'))"
  proof
    assume stray: "dbus_type_of stray \<noteq> DBUS_TYPE_DICT_ENTRY"
    obtain res c' st' where d: "decode_entries entries handlers c st = (res, c', st')"
      by (cases "decode_entries entries handlers c st")
    show "ReadDict
        (DBUS_ARRAY (map (\<lambda>(k, v). DBUS_DICT_ENTRY [DBUS_STRING k, DBUS_VARIANT v]) entries
                       @ stray # following) # rest)
        handlers c st =
        (case decode_entries entries handlers c st of
           (NFD_ERROR, c', st') \<Rightarrow> (NFD_ERROR, c', st')
         | (res, c', st') \<Rightarrow> (NFD_OKAY, c', st'))"
      using ReadDict_loop_entries [of entries "stray # following" handlers c st]
            ReadDict_loop_stray [OF stray, of following handlers c' st']
      by (cases res) (simp_all add: ReadDict_def d)
  qed
  from dispatch [of entries handlers c st] example not_array mismatch ends
  show ?thesis by (intro conjI)
qed

theorem ReadDict_dispatches_first_matching_handler_witness:
  "ReadDict
     [dict_value [(''uris'', DBUS_ARRAY [DBUS_STRING ''file:///home/u/doc.txt'']),
                  (''other'', DBUS_UINT32 5)]]
     [(''uris'', uris_callback)] None \<lparr>err_ptr = None, bus_log = [], incoming = []\<rparr> =
     (NFD_OKAY, Some ''file:///home/u/doc.txt'', \<lparr>err_ptr = None, bus_log = [], incoming = []\<rparr>) \<and>
   malformed_entry (DBUS_DICT_ENTRY [DBUS_STRING ''uris'']) =
     Some ''D-Bus response signal dict entry is missing one or more arguments.'' \<and>
   ReadDict
     [DBUS_ARRAY [DBUS_DICT_ENTRY [DBUS_STRING ''other'', DBUS_VARIANT (DBUS_UINT32 5)],
                  DBUS_DICT_ENTRY [DBUS_STRING ''uris'']]]
     [(''uris'', uris_callback)] None \<lparr>err_ptr = None, bus_log = [], incoming = []\<rparr> =
     (NFD_ERROR, None,
      \<lparr>err_ptr = Some ''D-Bus response signal dict entry is missing one or more arguments.'',
         bus_log = [], incoming = []\<rparr>) \<and>
   dbus_message_iter_get_arg_type [DBUS_UINT32 5] \<noteq> DBUS_TYPE_ARRAY \<and>
   fst (ReadDict [DBUS_UINT32 5] [(''uris'', uris_callback)] None
          \<lparr>err_ptr = None, bus_log = [], incoming = []\<rparr>) = NFD_ERROR \<and>
   dbus_type_of (DBUS_STRING ''file:///home/u/doc.txt'') \<noteq> DBUS_TYPE_DICT_ENTRY \<and>
   ReadDict
     [DBUS_ARRAY [DBUS_DICT_ENTRY [DBUS_STRING ''other'', DBUS_VARIANT (DBUS_UINT32 5)],
                  DBUS_STRING ''file:///home/u/doc.txt'']]
     [(''uris'', uris_callback)] None \<lparr>err_ptr = None, bus_log = [], incoming = []\<rparr> =
     (NFD_OKAY, None, \<lparr>err_ptr = None, bus_log = [], incoming = []\<rparr>)"
proof -
  let ?st = "\<lparr>err_ptr = None, bus_log = [], incoming = []\<rparr>"
  let ?msg = "''D-Bus response signal dict entry is missing one or more arguments.''"
  note inst = ReadDict_dispatches_first_matching_handler
    [of "[(''other'', DBUS_UINT32 5)]" "[]" "[(''uris'', uris_callback)]" None ?st None
        "[DBUS_UINT32 5]" "DBUS_DICT_ENTRY [DBUS_STRING ''uris'']" ?msg "[]"
        "DBUS_STRING ''file:///home/u/doc.txt''" "[]"]
  have bad: "malformed_entry (DBUS_DICT_ENTRY [DBUS_STRING ''uris'']) = Some ?msg"
    by (simp add: malformed_entry_def)
  have ty: "dbus_message_iter_get_arg_type [DBUS_UINT32 5] \<noteq> DBUS_TYPE_ARRAY"
    by simp
  from inst have ex: "ReadDict
     [dict_value [(''uris'', DBUS_ARRAY [DBUS_STRING ''file:///home/u/doc.txt'']),
                  (''other'', DBUS_UINT32 5)]]
     [(''uris'', uris_callback)] None ?st = (NFD_OKAY, Some ''file:///home/u/doc.txt'', ?st)"
    by (elim conjE)
  from inst bad have "ReadDict
     [DBUS_ARRAY [DBUS_DICT_ENTRY [DBUS_STRING ''other'', DBUS_VARIANT (DBUS_UINT32 5)],
                  DBUS_DICT_ENTRY [DBUS_STRING ''uris'']]]
     [(''uris'', uris_callback)] None ?st = (NFD_ERROR, None, NFDi_SetError ?msg ?st)"
    by (simp add: uris_callback_def)
  then have mis: "ReadDict
     [DBUS_ARRAY [DBUS_DICT_ENTRY [DBUS_STRING ''other'', DBUS_VARIANT (DBUS_UINT32 5)],
                  DBUS_DICT_ENTRY [DBUS_STRING ''uris'']]]
     [(''uris'', uris_callback)] None ?st =
     (NFD_ERROR, None, \<lparr>err_ptr = Some ?msg, bus_log = [], incoming = []\<rparr>)"
    by (simp add: NFDi_SetError_def)
  from inst ty have na: "fst (ReadDict [DBUS_UINT32 5] [(''uris'', uris_callback)] None ?st) = NFD_ERROR"
    by simp
  have stray: "dbus_type_of (DBUS_STRING ''file:///home/u/doc.txt'') \<noteq> DBUS_TYPE_DICT_ENTRY"
    by simp
  from inst stray have ends: "ReadDict
     [DBUS_ARRAY [DBUS_DICT_ENTRY [DBUS_STRING ''other'', DBUS_VARIANT (DBUS_UINT32 5)],
                  DBUS_STRING ''file:///home/u/doc.txt'']]
     [(''uris'', uris_callback)] None ?st = (NFD_OKAY, None, ?st)"
    by (simp add: uris_callback_def)
  from ex bad mis ty na stray ends show ?thesis by (intro conjI)
qed

theorem stray_element_ends_decode_counterexample:
  "dbus_message_iter_get_arg_type [DBUS_ARRAY [DBUS_STRING ''file:///home/u/doc.txt'']] =
     DBUS_TYPE_ARRAY \<and>
   ReadDict [DBUS_ARRAY [DBUS_STRING ''file:///home/u/doc.txt'']] [(''uris'', uris_callback)]
     None initial_state = (NFD_OKAY, None, initial_state)"
  by (simp add: ReadDict_def ReadDict_loop.simps [of "_ # _"])

text \<open>
  C1. The status at the head of a Response body decides the outcome. Status 0 goes on to
  the results dictionary (an error if it is missing). Status 1 is a cancellation: the
  result is \<open>NFD_CANCEL\<close> whatever follows the status, no path is written and no error
  is set. Any other status is an error with a message of its own, again whatever follows
  the status and with no path written.
\<close>

theorem response_status_decides_outcome:
  "ReadResponseParamsSingle (msg\<lparr>msg_body := DBUS_UINT32 status # rest\<rparr>) file st =
     (if status = 0 then
        (if rest = [] then
           (NFD_ERROR, file,
            NFDi_SetError ''D-Bus response signal is missing one or more arguments.'' st)
         else if fst (ReadDict rest [(''uris'', uris_callback)] file st) = NFD_ERROR then
           (NFD_ERROR, snd (ReadDict rest [(''uris'', uris_callback)] file st))
         else (NFD_OKAY, snd (ReadDict rest [(''uris'', uris_callback)] file st)))
      else if status = 1 then (NFD_CANCEL, file, st)
      else (NFD_ERROR, file,
            st\<lparr>err_ptr := Some ''D-Bus file dialog interaction was ended abruptly.''\<rparr>)) \<and>
   ''D-Bus file dialog interaction was ended abruptly.'' \<notin>
     set [''D-Bus response signal is missing one or more arguments.'',
          ''D-Bus response signal argument is not a uint32.'',
          ''D-Bus response signal argument is not an array.'',
          ''D-Bus response signal dict entry does not start with a string.'',
          ''D-Bus response signal dict entry is missing one or more arguments.'',
          ''D-Bus response signal dict entry value is not a variant.'',
          ''D-Bus response signal URI iter is not an array.'',
          ''D-Bus response signal URI sub iter is not an string.'']"
proof -
  have "ReadResponseParamsSingle (msg\<lparr>msg_body := DBUS_UINT32 status # rest\<rparr>) file st =
     (if status = 0 then
        (if rest = [] then
           (NFD_ERROR, file,
            NFDi_SetError ''D-Bus response signal is missing one or more arguments.'' st)
         else if fst (ReadDict rest [(''uris'', uris_callback)] file st) = NFD_ERROR then
           (NFD_ERROR, snd (ReadDict rest [(''uris'', uris_callback)] file st))
         else (NFD_OKAY, snd (ReadDict rest [(''uris'', uris_callback)] file st)))
      else if status = 1 then (NFD_CANCEL, file, st)
      else (NFD_ERROR, file,
            st\<lparr>err_ptr := Some ''D-Bus file dialog interaction was ended abruptly.''\<rparr>))"
    by (simp add: ReadResponseParamsSingle_def dbus_message_iter_init_def
          dbus_message_iter_next_def NFDi_SetError_def Let_def)
  moreover have "''D-Bus file dialog interaction was ended abruptly.'' \<notin>
     set [''D-Bus response signal is missing one or more arguments.'',
          ''D-Bus response signal argument is not a uint32.'',
          ''D-Bus response signal argument is not an array.'',
          ''D-Bus response signal dict entry does not start with a string.'',
          ''D-Bus response signal dict entry is missing one or more arguments.'',
          ''D-Bus response signal dict entry value is not a variant.'',
          ''D-Bus response signal URI iter is not an array.'',
          ''D-Bus response signal URI sub iter is not an string.'']"
    by simp
  ultimately show ?thesis by (rule conjI)
qed

theorem response_status_decides_outcome_witness:
  "ReadResponseParamsSingle
     \<lparr>msg_type = SIGNAL, msg_path = ''/p'', msg_interface = ''org.freedesktop.portal.Request'',
        msg_member = ''Response'',
        msg_body = [DBUS_UINT32 1, dict_value [(''uris'', DBUS_ARRAY [DBUS_STRING ''file:///x''])]]\<rparr>
     None \<lparr>err_ptr = None, bus_log = [], incoming = []\<rparr> =
     (NFD_CANCEL, None, \<lparr>err_ptr = None, bus_log = [], incoming = []\<rparr>) \<and>
   ReadResponseParamsSingle
     \<lparr>msg_type = SIGNAL, msg_path = ''/p'', msg_interface = ''org.freedesktop.portal.Request'',
        msg_member = ''Response'',
        msg_body = [DBUS_UINT32 2, dict_value [(''uris'', DBUS_ARRAY [DBUS_STRING ''file:///x''])]]\<rparr>
     None \<lparr>err_ptr = None, bus_log = [], incoming = []\<rparr> =
     (NFD_ERROR, None,
      \<lparr>err_ptr = Some ''D-Bus file dialog interaction was ended abruptly.'', bus_log = [],
         incoming = []\<rparr>) \<and>
   ReadResponseParamsSingle
     \<lparr>msg_type = SIGNAL, msg_path = ''/p'', msg_interface = ''org.freedesktop.portal.Request'',
        msg_member = ''Response'',
        msg_body = [DBUS_UINT32 0, dict_value [(''uris'', DBUS_ARRAY [DBUS_STRING ''file:///x''])]]\<rparr>
     None \<lparr>err_ptr = None, bus_log = [], incoming = []\<rparr> =
     (NFD_OKAY, Some ''file:///x'', \<lparr>err_ptr = None, bus_log = [], incoming = []\<rparr>)"
proof -
  let ?m = "\<lparr>msg_type = SIGNAL, msg_path = ''/p'',
              msg_interface = ''org.freedesktop.portal.Request'', msg_member = ''Response'',
              msg_body = []\<rparr>"
  let ?rest = "[dict_value [(''uris'', DBUS_ARRAY [DBUS_STRING ''file:///x''])]]"
  let ?st = "\<lparr>err_ptr = None, bus_log = [], incoming = []\<rparr>"
  have dict: "ReadDict ?rest [(''uris'', uris_callback)] None ?st =
      (NFD_OKAY, Some ''file:///x'', ?st)"
    by (simp add: ReadDict_def dict_value_def uris_callback_def dbus_message_iter_next_def
          ReadDict_loop.simps [of "_ # _"] Let_def)
  from response_status_decides_outcome [of 1 ?rest ?m None ?st]
  have a: "ReadResponseParamsSingle (?m\<lparr>msg_body := DBUS_UINT32 1 # ?rest\<rparr>) None ?st =
      (NFD_CANCEL, None, ?st)"
    by simp
  from response_status_decides_outcome [of 2 ?rest ?m None ?st]
  have b: "ReadResponseParamsSingle (?m\<lparr>msg_body := DBUS_UINT32 2 # ?rest\<rparr>) None ?st =
      (NFD_ERROR, None, ?st\<lparr>err_ptr := Some ''D-Bus file dialog interaction was ended abruptly.''\<rparr>)"
    by simp
  from response_status_decides_outcome [of 0 ?rest ?m None ?st]
  have c: "ReadResponseParamsSingle (?m\<lparr>msg_body := DBUS_UINT32 0 # ?rest\<rparr>) None ?st =
      (NFD_OKAY, Some ''file:///x'', ?st)"
    by (simp add: dict)
  from a b c show ?thesis by simp
qed

subsection \<open>Subscription manager\<close>

lemma Subscribe_unfold:
  "Subscribe env p this st =
     (let cmd = MakeResponseSubscriptionPath p (dbus_unique_name env);
          st1 = (case sub_cmd this of None \<Rightarrow> st | Some old \<Rightarrow> bus_called (RemoveMatch old) st);
          st2 = bus_called (AddMatch cmd) st1;
          this' = this\<lparr>sub_cmd := Some cmd\<rparr>
      in case add_match_error env cmd of
           Some message \<Rightarrow> (NFD_ERROR, this', NFDi_SetError message st2)
         | None \<Rightarrow> (NFD_OKAY, this', st2))"
  by (cases "sub_cmd this")
     (simp_all add: Subscribe_def Unsubscribe_def Let_def split: option.splits)

text \<open>
  C5, amended. When the bus refuses the match rule, subscribe returns an error result at
  once, with the bus's message as the current error, and the manager keeps the rule it has
  just built as its subscription. Every subscribe on a subscribed manager first removes the
  previous rule and then adds the new one; whatever error the bus reports for the removal
  has no effect.
\<close>

theorem subscribe_failure_and_replacement:
  "(add_match_error env (MakeResponseSubscriptionPath p (dbus_unique_name env)) = Some message \<longrightarrow>
      fst (Subscribe env p this st) = NFD_ERROR \<and>
      sub_cmd (fst (snd (Subscribe env p this st))) =
        Some (MakeResponseSubscriptionPath p (dbus_unique_name env)) \<and>
      err_ptr (snd (snd (Subscribe env p this st))) = Some message) \<and>
   (sub_cmd this = Some old \<longrightarrow>
      bus_log (snd (snd (Subscribe env p this st))) =
        bus_log st @ [RemoveMatch old,
                      AddMatch (MakeResponseSubscriptionPath p (dbus_unique_name env))]) \<and>
   (sub_cmd this = Some old \<and>
    add_match_error env (MakeResponseSubscriptionPath p (dbus_unique_name env)) = None \<longrightarrow>
      fst (Subscribe env p this st) = NFD_OKAY \<and>
      err_ptr (snd (snd (Subscribe env p this st))) = err_ptr st) \<and>
   Subscribe (env\<lparr>remove_match_error := f\<rparr>) p this st = Subscribe env p this st"
  by (cases "add_match_error env (MakeResponseSubscriptionPath p (dbus_unique_name env))")
     (simp_all add: Subscribe_unfold Let_def NFDi_SetError_def bus_called_def)

theorem subscribe_failure_and_replacement_witness:
  "add_match_error refusing_bus (MakeResponseSubscriptionPath ''/a'' (dbus_unique_name refusing_bus)) =
     Some ''Match rule refused'' \<and>
   fst (Subscribe refusing_bus ''/a'' \<lparr>sub_cmd = Some ''old rule''\<rparr> initial_state) = NFD_ERROR \<and>
   sub_cmd (fst (snd (Subscribe refusing_bus ''/a'' \<lparr>sub_cmd = Some ''old rule''\<rparr> initial_state))) =
     Some (MakeResponseSubscriptionPath ''/a'' '':1.42'') \<and>
   bus_log (snd (snd (Subscribe refusing_bus ''/a'' \<lparr>sub_cmd = Some ''old rule''\<rparr> initial_state))) =
     [RemoveMatch ''old rule'', AddMatch (MakeResponseSubscriptionPath ''/a'' '':1.42'')] \<and>
   add_match_error (example_portal [] []) (MakeResponseSubscriptionPath ''/a'' '':1.42'') = None \<and>
   fst (Subscribe (example_portal [] []) ''/a'' \<lparr>sub_cmd = Some ''old rule''\<rparr> initial_state) = NFD_OKAY"
proof -
  have refused: "add_match_error refusing_bus
      (MakeResponseSubscriptionPath ''/a'' (dbus_unique_name refusing_bus)) = Some ''Match rule refused''"
    by (simp add: refusing_bus_def)
  have name: "dbus_unique_name refusing_bus = '':1.42''" "dbus_unique_name (example_portal [] []) = '':1.42''"
    by (simp_all add: refusing_bus_def example_portal_def)
  have accepted: "add_match_error (example_portal [] [])
      (MakeResponseSubscriptionPath ''/a'' (dbus_unique_name (example_portal [] []))) = None"
    by (simp add: example_portal_def)
  have old: "sub_cmd \<lparr>sub_cmd = Some ''old rule''\<rparr> = Some ''old rule''"
    by simp
  note fails = subscribe_failure_and_replacement
    [of refusing_bus "''/a''" "''Match rule refused''" "\<lparr>sub_cmd = Some ''old rule''\<rparr>"
        initial_state "''old rule''" "\<lambda>rule. None"]
  note succeeds = subscribe_failure_and_replacement
    [of "example_portal [] []" "''/a''" "''Match rule refused''" "\<lparr>sub_cmd = Some ''old rule''\<rparr>"
        initial_state "''old rule''" "\<lambda>rule. None"]
  from fails refused old
  have "fst (Subscribe refusing_bus ''/a'' \<lparr>sub_cmd = Some ''old rule''\<rparr> initial_state) = NFD_ERROR"
    and "sub_cmd (fst (snd (Subscribe refusing_bus ''/a'' \<lparr>sub_cmd = Some ''old rule''\<rparr> initial_state))) =
     Some (MakeResponseSubscriptionPath ''/a'' '':1.42'')"
    and "bus_log (snd (snd (Subscribe refusing_bus ''/a'' \<lparr>sub_cmd = Some ''old rule''\<rparr> initial_state))) =
     [RemoveMatch ''old rule'', AddMatch (MakeResponseSubscriptionPath ''/a'' '':1.42'')]"
    by (simp_all add: name initial_state_def)
  moreover from succeeds accepted old
  have "fst (Subscribe (example_portal [] []) ''/a'' \<lparr>sub_cmd = Some ''old rule''\<rparr> initial_state) = NFD_OKAY"
    by blast
  ultimately show ?thesis
    using refused accepted by (simp add: name)
qed

theorem subscribe_failure_not_unsubscribed_counterexample:
  "fst (Subscribe refusing_bus ''/a'' \<lparr>sub_cmd = None\<rparr> initial_state) = NFD_ERROR \<and>
   sub_cmd (fst (snd (Subscribe refusing_bus ''/a'' \<lparr>sub_cmd = None\<rparr> initial_state))) \<noteq> None"
  by (simp add: Subscribe_unfold Let_def refusing_bus_def example_portal_def)

subsection \<open>Dialog orchestrator\<close>

lemma uris_callback_bus_log:
  "bus_log (snd (snd (uris_callback iter fl st))) = bus_log st"
  by (simp add: uris_callback_def NFDi_SetError_def Let_def)

lemma ReadDict_loop_uris_bus_log:
  "bus_log (snd (snd (ReadDict_loop sub_iter [(''uris'', uris_callback)] fl st))) = bus_log st"
proof (induction sub_iter arbitrary: fl st)
  case Nil
  show ?case by (simp add: ReadDict_loop.simps [of "[]"])
next
  case (Cons v vs)
  show ?case
    using Cons.IH uris_callback_bus_log
    by (subst ReadDict_loop.simps)
       (simp add: Let_def NFDi_SetError_def dbus_message_iter_next_def)
qed

lemma ReadResponseParamsSingle_bus_log:
  "bus_log (snd (snd (ReadResponseParamsSingle msg fl st))) = bus_log st"
  by (simp add: ReadResponseParamsSingle_def ReadDict_def ReadDict_loop_uris_bus_log
        NFDi_SetError_def Let_def)

lemma pop_loop_bus_log:
  "\<exists>evs. bus_log (snd (snd (pop_loop fl st))) = bus_log st @ evs \<and> set evs \<subseteq> {PopMessage}"
proof (induction "incoming st" arbitrary: st)
  case Nil
  then have "pop_loop fl st = (None, fl, bus_called PopMessage st)"
    by (subst pop_loop.simps) (simp add: dbus_connection_pop_message_def Let_def)
  then have "bus_log (snd (snd (pop_loop fl st))) = bus_log st @ [PopMessage]"
    by (simp add: bus_called_def)
  then show ?case
    by (intro exI [of _ "[PopMessage]"]) simp
next
  case (Cons msg queue)
  let ?st' = "bus_called PopMessage (st\<lparr>incoming := queue\<rparr>)"
  have popped: "dbus_connection_pop_message st = (Some msg, ?st')"
    using Cons(2) [symmetric] by (simp add: dbus_connection_pop_message_def)
  have log': "bus_log ?st' = bus_log st @ [PopMessage]"
    by (simp add: bus_called_def)
  show ?case
  proof (cases "dbus_message_is_signal msg ''org.freedesktop.portal.Request'' ''Response''")
    case True
    have "bus_log (snd (snd (pop_loop fl st))) = bus_log ?st'"
      using True ReadResponseParamsSingle_bus_log [of msg "pointer_value fl" ?st']
      by (subst pop_loop.simps) (simp add: popped Let_def)
    then show ?thesis
      using log' by (intro exI [of _ "[PopMessage]"]) simp
  next
    case False
    have "queue = incoming ?st'"
      by (simp add: bus_called_def)
    from Cons(1) [OF this] obtain evs where
      evs: "bus_log (snd (snd (pop_loop fl ?st'))) = bus_log ?st' @ evs" "set evs \<subseteq> {PopMessage}"
      by auto
    have "pop_loop fl st = pop_loop fl ?st'"
      using False by (subst pop_loop.simps) (simp add: popped Let_def)
    then have "bus_log (snd (snd (pop_loop fl st))) = bus_log st @ (PopMessage # evs)"
      using evs(1) log' by simp
    then show ?thesis
      using evs(2) by (intro exI [of _ "PopMessage # evs"]) simp
  qed
qed

lemma wait_loop_bus_log:
  "\<exists>evs. bus_log (snd (snd (wait_loop events fl st))) = bus_log st @ evs \<and>
         set evs \<subseteq> {PopMessage, ReadWrite}"
proof (induction events arbitrary: fl st)
  case Nil
  obtain r fl' st' where p: "pop_loop fl st = (r, fl', st')"
    by (cases "pop_loop fl st")
  from pop_loop_bus_log [of fl st] p obtain evs where
    evs: "bus_log st' = bus_log st @ evs" "set evs \<subseteq> {PopMessage}"
    by auto
  have "bus_log (snd (snd (wait_loop [] fl st))) = bus_log st' \<or>
        bus_log (snd (snd (wait_loop [] fl st))) = bus_log st' @ [ReadWrite]"
    by (subst wait_loop.simps, subst (2) wait_loop.simps)
       (simp add: p bus_called_def split: option.splits)
  then show ?case
  proof
    assume "bus_log (snd (snd (wait_loop [] fl st))) = bus_log st'"
    then show ?thesis
      using evs by (intro exI [of _ evs]) auto
  next
    assume "bus_log (snd (snd (wait_loop [] fl st))) = bus_log st' @ [ReadWrite]"
    then show ?thesis
      using evs by (intro exI [of _ "evs @ [ReadWrite]"]) auto
  qed
next
  case (Cons ev events)
  obtain r fl' st' where p: "pop_loop fl st = (r, fl', st')"
    by (cases "pop_loop fl st")
  from pop_loop_bus_log [of fl st] p obtain evs where
    evs: "bus_log st' = bus_log st @ evs" "set evs \<subseteq> {PopMessage}"
    by auto
  obtain b st'' where rw: "dbus_connection_read_write ev st' = (b, st'')"
    by (cases "dbus_connection_read_write ev st'")
  have log'': "bus_log st'' = bus_log st' @ [ReadWrite]"
    using rw by (cases ev) (auto simp: bus_called_def)
  from Cons.IH [of fl' st''] obtain evs' where
    evs': "bus_log (snd (snd (wait_loop events fl' st''))) = bus_log st'' @ evs'"
    "set evs' \<subseteq> {PopMessage, ReadWrite}"
    by auto
  have "bus_log (snd (snd (wait_loop (ev # events) fl st))) = bus_log st' \<or>
        bus_log (snd (snd (wait_loop (ev # events) fl st))) = bus_log st'' \<or>
        bus_log (snd (snd (wait_loop (ev # events) fl st))) =
          bus_log (snd (snd (wait_loop events fl' st'')))"
    by (subst wait_loop.simps, subst (2) wait_loop.simps, subst (3) wait_loop.simps)
       (auto simp: p rw split: option.splits bool.splits)
  then consider
      "bus_log (snd (snd (wait_loop (ev # events) fl st))) = bus_log st @ evs"
    | "bus_log (snd (snd (wait_loop (ev # events) fl st))) = bus_log st @ (evs @ [ReadWrite])"
    | "bus_log (snd (snd (wait_loop (ev # events) fl st))) = bus_log st @ (evs @ [ReadWrite] @ evs')"
    using evs(1) log'' evs'(1) by auto
  then show ?case
  proof cases
    case 1
    then show ?thesis using evs(2) by (intro exI [of _ evs]) auto
  next
    case 2
    then show ?thesis using evs(2) by (intro exI [of _ "evs @ [ReadWrite]"]) auto
  next
    case 3
    then show ?thesis
      using evs(2) evs'(2) by (intro exI [of _ "evs @ [ReadWrite] @ evs'"]) auto
  qed
qed


lemma AllocAndCopyFIlePath_bus_log:
  "bus_log (snd (snd (AllocAndCopyFIlePath uri outPath st))) = bus_log st"
  by (simp add: AllocAndCopyFIlePath_def NFDi_SetError_def Let_def split: option.splits)

text \<open>The bus calls of the wait: the reads, and the removal of the rule when the function returns.\<close>

lemma wait_and_resolve_bus_log:
  assumes sub: "sub_cmd signal_sub = Some rule"
  shows "\<exists>evs. bus_log (snd (snd (wait_and_resolve env outPath signal_sub st))) =
           bus_log st @ evs @
           (case fst (wait_and_resolve env outPath signal_sub st) of
              Returned res \<Rightarrow> [RemoveMatch rule]
            | Blocked \<Rightarrow> []
            | Undefined ub \<Rightarrow> []) \<and>
         set evs \<subseteq> {PopMessage, ReadWrite}"
proof -
  obtain w fl st' where w: "wait_loop (traffic env) NullPointer st = (w, fl, st')"
    by (cases "wait_loop (traffic env) NullPointer st")
  from wait_loop_bus_log [of "traffic env" NullPointer st] w obtain evs where
    evs: "bus_log st' = bus_log st @ evs" "set evs \<subseteq> {PopMessage, ReadWrite}"
    by auto
  have leave_log: "bus_log (snd (snd (leave env res p signal_sub s))) = bus_log s @ [RemoveMatch rule]"
    "fst (leave env res p signal_sub s) = Returned res" for res p s
    using sub by (simp_all add: leave_def destroy_subscription_def Unsubscribe_def bus_called_def)
  have "bus_log (snd (snd (wait_and_resolve env outPath signal_sub st))) =
           bus_log st' @
           (case fst (wait_and_resolve env outPath signal_sub st) of
              Returned res \<Rightarrow> [RemoveMatch rule]
            | Blocked \<Rightarrow> []
            | Undefined ub \<Rightarrow> [])"
  proof (cases w)
    case (Return res)
    then show ?thesis
      by (simp add: wait_and_resolve_def w leave_log)
  next
    case NeverReturns
    then show ?thesis
      by (simp add: wait_and_resolve_def w)
  next
    case LoopLeft
    show ?thesis
    proof (cases fl)
      case NullPointer
      with LoopLeft show ?thesis
        by (simp add: wait_and_resolve_def w leave_log NFDi_SetError_def)
    next
      case (InReleasedMessage s)
      with LoopLeft show ?thesis
        by (simp add: wait_and_resolve_def w)
    next
      case (InLiveMessage uri)
      obtain res p s where a: "AllocAndCopyFIlePath uri outPath st' = (res, p, s)"
        by (cases "AllocAndCopyFIlePath uri outPath st'")
      with AllocAndCopyFIlePath_bus_log [of uri outPath st'] have "bus_log s = bus_log st'"
        by simp
      with LoopLeft InLiveMessage a show ?thesis
        by (simp add: wait_and_resolve_def w leave_log)
    qed
  qed
  with evs show ?thesis
    by (intro exI [of _ evs]) simp
qed

lemma MakeResponseSubscriptionPath_form:
  "MakeResponseSubscriptionPath address unique_name =
     ''type='signal',sender='org.freedesktop.portal.Desktop',path='' @ [CHR 0x27] @ address @
     [CHR 0x27] @ '',interface='org.freedesktop.portal.Request',member='Response',destination='' @
     [CHR 0x27] @ unique_name @ [CHR 0x27]"
  by (simp add: MakeResponseSubscriptionPath_def copy_def c_mem_def Let_def
        STR_RESPONSE_SUBSCRIPTION_PATH_1_def STR_RESPONSE_SUBSCRIPTION_PATH_2_def
        STR_RESPONSE_SUBSCRIPTION_PATH_3_def)

lemma MakeResponseSubscriptionPath_inject:
  "MakeResponseSubscriptionPath a unique_name = MakeResponseSubscriptionPath b unique_name \<longleftrightarrow> a = b"
  by (simp add: MakeResponseSubscriptionPath_form)

text \<open>
  C7. In a run of the open-dialog operation that has subscribed and has received an object
  path in the reply, the calls on the bus are, in order: the subscription for the guessed
  address; the method call; if the returned path is the guessed one, nothing, and
  otherwise exactly one re-subscription, which removes the rule of the guessed address
  and adds the rule of the returned one; only then the reads of the signal wait; and, when
  the operation returns, the removal of the current rule. The rule of an address is the
  match rule for Response signals of the portal whose path is that address, so the rules
  of two addresses are equal only if the addresses are.
\<close>

theorem resubscribes_only_when_handle_differs:
  "MakeResponseSubscriptionPath address unique_name =
     ''type='signal',sender='org.freedesktop.portal.Desktop',path='' @ [CHR 0x27] @ address @
     [CHR 0x27] @ '',interface='org.freedesktop.portal.Request',member='Response',destination='' @
     [CHR 0x27] @ unique_name @ [CHR 0x27] \<and>
   (MakeResponseSubscriptionPath path unique_name = MakeResponseSubscriptionPath guess unique_name) =
     (path = guess) \<and>
   (MakeUniqueObjectPath (dbus_unique_name env) (entropy env) = Some (guess, token_offset) \<and>
    add_match_error env (MakeResponseSubscriptionPath guess (dbus_unique_name env)) = None \<and>
    AppendOpenFileQueryParams False (drop token_offset guess) filterList [] = Inr body \<and>
    call_reply env (OpenFile_call\<lparr>call_body := body\<rparr>) = Inr reply \<and>
    msg_body reply = DBUS_OBJECT_PATH path # rest \<longrightarrow>
    (\<exists>out outPath' st' evs.
       NFD_OpenDialogN env outPath filterList st = Some (out, outPath', st') \<and>
       bus_log st' =
         bus_log st @
         [AddMatch (MakeResponseSubscriptionPath guess (dbus_unique_name env)),
          SendWithReplyAndBlock (OpenFile_call\<lparr>call_body := body\<rparr>)] @
         (if path = guess then []
          else [RemoveMatch (MakeResponseSubscriptionPath guess (dbus_unique_name env)),
                AddMatch (MakeResponseSubscriptionPath path (dbus_unique_name env))]) @
         evs @
         (case out of
            Returned res \<Rightarrow> [RemoveMatch (MakeResponseSubscriptionPath path (dbus_unique_name env))]
          | Blocked \<Rightarrow> []
          | Undefined ub \<Rightarrow> []) \<and>
       set evs \<subseteq> {PopMessage, ReadWrite}))"
proof (intro conjI impI)
  show "MakeResponseSubscriptionPath address unique_name =
     ''type='signal',sender='org.freedesktop.portal.Desktop',path='' @ [CHR 0x27] @ address @
     [CHR 0x27] @ '',interface='org.freedesktop.portal.Request',member='Response',destination='' @
     [CHR 0x27] @ unique_name @ [CHR 0x27]"
    by (rule MakeResponseSubscriptionPath_form)
next
  show "(MakeResponseSubscriptionPath path unique_name = MakeResponseSubscriptionPath guess unique_name) =
     (path = guess)"
    by (rule MakeResponseSubscriptionPath_inject)
next
  let ?rule = "\<lambda>p. MakeResponseSubscriptionPath p (dbus_unique_name env)"
  let ?query = "OpenFile_call\<lparr>call_body := body\<rparr>"
  assume "MakeUniqueObjectPath (dbus_unique_name env) (entropy env) = Some (guess, token_offset) \<and>
   add_match_error env (?rule guess) = None \<and>
   AppendOpenFileQueryParams False (drop token_offset guess) filterList [] = Inr body \<and>
   call_reply env ?query = Inr reply \<and>
   msg_body reply = DBUS_OBJECT_PATH path # rest"
  then have made: "MakeUniqueObjectPath (dbus_unique_name env) (entropy env) = Some (guess, token_offset)"
    and accepted: "add_match_error env (?rule guess) = None"
    and built: "AppendOpenFileQueryParams False (drop token_offset guess) filterList [] = Inr body"
    and replied: "call_reply env ?query = Inr reply"
    and handle: "msg_body reply = DBUS_OBJECT_PATH path # rest"
    by simp_all
  let ?st1 = "bus_called (AddMatch (?rule guess)) st"
  let ?st2 = "bus_called (SendWithReplyAndBlock ?query) ?st1"
  let ?sub1 = "\<lparr>sub_cmd = Some (?rule guess)\<rparr>"
  have first: "Subscribe env guess \<lparr>sub_cmd = None\<rparr> st = (NFD_OKAY, ?sub1, ?st1)"
    by (simp add: Subscribe_unfold accepted Let_def)
  obtain sub2 st3 where upd: "update_subscription env path guess ?sub1 ?st2 = (sub2, st3)"
    by (cases "update_subscription env path guess ?sub1 ?st2")
  have upd_log: "bus_log st3 = bus_log ?st2 @
      (if path = guess then [] else [RemoveMatch (?rule guess), AddMatch (?rule path)])"
    and upd_sub: "sub_cmd sub2 = Some (?rule path)"
    using upd
    by (auto simp: update_subscription_def Subscribe_unfold Let_def bus_called_def
          NFDi_SetError_def split: if_splits option.splits)
  have empty: "call_body OpenFile_call = []"
    by (simp add: OpenFile_call_def dbus_message_new_method_call_def)
  have run: "NFD_OpenDialogN env outPath filterList st = Some (wait_and_resolve env outPath sub2 st3)"
    by (simp add: NFD_OpenDialogN_def made first empty built replied handle upd Let_def
          dbus_message_iter_init_def)
  from wait_and_resolve_bus_log [OF upd_sub, of env outPath st3] obtain evs where
    evs: "bus_log (snd (snd (wait_and_resolve env outPath sub2 st3))) =
           bus_log st3 @ evs @
           (case fst (wait_and_resolve env outPath sub2 st3) of
              Returned res \<Rightarrow> [RemoveMatch (?rule path)]
            | Blocked \<Rightarrow> []
            | Undefined ub \<Rightarrow> [])"
      "set evs \<subseteq> {PopMessage, ReadWrite}"
    by blast
  obtain out outPath' st' where res: "wait_and_resolve env outPath sub2 st3 = (out, outPath', st')"
    by (cases "wait_and_resolve env outPath sub2 st3")
  have "bus_log st' =
        bus_log st @ [AddMatch (?rule guess), SendWithReplyAndBlock ?query] @
        (if path = guess then [] else [RemoveMatch (?rule guess), AddMatch (?rule path)]) @
        evs @
        (case out of
           Returned res \<Rightarrow> [RemoveMatch (?rule path)]
         | Blocked \<Rightarrow> []
         | Undefined ub \<Rightarrow> [])"
    using evs(1) upd_log by (simp add: res bus_called_def)
  with run res evs(2)
  show "\<exists>out outPath' st' evs.
      NFD_OpenDialogN env outPath filterList st = Some (out, outPath', st') \<and>
      bus_log st' =
        bus_log st @
        [AddMatch (?rule guess), SendWithReplyAndBlock ?query] @
        (if path = guess then [] else [RemoveMatch (?rule guess), AddMatch (?rule path)]) @
        evs @
        (case out of
           Returned res \<Rightarrow> [RemoveMatch (?rule path)]
         | Blocked \<Rightarrow> []
         | Undefined ub \<Rightarrow> []) \<and>
      set evs \<subseteq> {PopMessage, ReadWrite}"
    by (intro exI [of _ out] exI [of _ outPath'] exI [of _ st'] exI [of _ evs] conjI)
       (simp_all only:)
qed

theorem resubscribes_only_when_handle_differs_witness:
  "MakeUniqueObjectPath '':1.42'' [Bytes bytes_0_to_31] = Some (example_handle, 45) \<and>
   AppendOpenFileQueryParams False (drop 45 example_handle) [] [] = Inr example_body \<and>
   MakeResponseSubscriptionPath ''/org/freedesktop/portal/desktop/request/1_42/other'' '':1.42'' =
     ''type='signal',sender='org.freedesktop.portal.Desktop',path='/org/freedesktop/portal/desktop/request/1_42/other',interface='org.freedesktop.portal.Request',member='Response',destination=':1.42'' @ [CHR 0x27] \<and>
   MakeResponseSubscriptionPath ''/org/freedesktop/portal/desktop/request/1_42/other'' '':1.42'' \<noteq>
     MakeResponseSubscriptionPath example_handle '':1.42'' \<and>
   map_option fst
     (NFD_OpenDialogN
        (example_portal ''/org/freedesktop/portal/desktop/request/1_42/other''
           [Traffic [Response [DBUS_UINT32 1]]])
        None [] initial_state) = Some (Returned NFD_CANCEL) \<and>
   map_option (bus_log \<circ> snd \<circ> snd)
     (NFD_OpenDialogN
        (example_portal ''/org/freedesktop/portal/desktop/request/1_42/other''
           [Traffic [Response [DBUS_UINT32 1]]])
        None [] initial_state) =
     Some [AddMatch (MakeResponseSubscriptionPath example_handle '':1.42''),
           SendWithReplyAndBlock (OpenFile_call\<lparr>call_body := example_body\<rparr>),
           RemoveMatch (MakeResponseSubscriptionPath example_handle '':1.42''),
           AddMatch (MakeResponseSubscriptionPath
                       ''/org/freedesktop/portal/desktop/request/1_42/other'' '':1.42''),
           PopMessage, ReadWrite, PopMessage,
           RemoveMatch (MakeResponseSubscriptionPath
                          ''/org/freedesktop/portal/desktop/request/1_42/other'' '':1.42'')] \<and>
   map_option (bus_log \<circ> snd \<circ> snd)
     (NFD_OpenDialogN (example_portal example_handle [Traffic [Response [DBUS_UINT32 1]]])
        None [] initial_state) =
     Some [AddMatch (MakeResponseSubscriptionPath example_handle '':1.42''),
           SendWithReplyAndBlock (OpenFile_call\<lparr>call_body := example_body\<rparr>),
           PopMessage, ReadWrite, PopMessage,
           RemoveMatch (MakeResponseSubscriptionPath example_handle '':1.42'')] \<and>
   (\<exists>out outPath' st' evs.
      NFD_OpenDialogN
        (example_portal ''/org/freedesktop/portal/desktop/request/1_42/other''
           [Traffic [Response [DBUS_UINT32 1]]])
        None [] initial_state = Some (out, outPath', st') \<and>
      bus_log st' =
        [AddMatch (MakeResponseSubscriptionPath example_handle '':1.42''),
         SendWithReplyAndBlock (OpenFile_call\<lparr>call_body := example_body\<rparr>),
         RemoveMatch (MakeResponseSubscriptionPath example_handle '':1.42''),
         AddMatch (MakeResponseSubscriptionPath
                     ''/org/freedesktop/portal/desktop/request/1_42/other'' '':1.42'')] @
        evs @
        (case out of
           Returned res \<Rightarrow>
             [RemoveMatch (MakeResponseSubscriptionPath
                             ''/org/freedesktop/portal/desktop/request/1_42/other'' '':1.42'')]
         | Blocked \<Rightarrow> []
         | Undefined ub \<Rightarrow> []) \<and>
      set evs \<subseteq> {PopMessage, ReadWrite})"
proof -
  let ?other = "''/org/freedesktop/portal/desktop/request/1_42/other''"
  let ?env = "example_portal ?other [Traffic [Response [DBUS_UINT32 1]]]"
  let ?reply = "\<lparr>msg_type = METHOD_RETURN, msg_path = [], msg_interface = [], msg_member = [],
                  msg_body = [DBUS_OBJECT_PATH ?other]\<rparr>"
  have name: "dbus_unique_name ?env = '':1.42''" and rnd: "entropy ?env = [Bytes bytes_0_to_31]"
    by (simp_all add: example_portal_def)
  have made: "MakeUniqueObjectPath '':1.42'' [Bytes bytes_0_to_31] = Some (example_handle, 45)"
    by code_simp
  have accepted: "add_match_error ?env (MakeResponseSubscriptionPath example_handle '':1.42'') = None"
    by (simp add: example_portal_def)
  have built: "AppendOpenFileQueryParams False (drop 45 example_handle) [] [] = Inr example_body"
    by code_simp
  have replied: "call_reply ?env (OpenFile_call\<lparr>call_body := example_body\<rparr>) = Inr ?reply"
    by (simp add: example_portal_def)
  have handle: "msg_body ?reply = DBUS_OBJECT_PATH ?other # []"
    by simp
  have differs: "?other \<noteq> example_handle"
    by (simp add: example_handle_def)
  have cancelled: "map_option fst (NFD_OpenDialogN ?env None [] initial_state) = Some (Returned NFD_CANCEL)"
    by code_simp
  have log_other: "map_option (bus_log \<circ> snd \<circ> snd) (NFD_OpenDialogN ?env None [] initial_state) =
     Some [AddMatch (MakeResponseSubscriptionPath example_handle '':1.42''),
           SendWithReplyAndBlock (OpenFile_call\<lparr>call_body := example_body\<rparr>),
           RemoveMatch (MakeResponseSubscriptionPath example_handle '':1.42''),
           AddMatch (MakeResponseSubscriptionPath ?other '':1.42''),
           PopMessage, ReadWrite, PopMessage,
           RemoveMatch (MakeResponseSubscriptionPath ?other '':1.42'')]"
    by code_simp
  have log_same: "map_option (bus_log \<circ> snd \<circ> snd)
     (NFD_OpenDialogN (example_portal example_handle [Traffic [Response [DBUS_UINT32 1]]])
        None [] initial_state) =
     Some [AddMatch (MakeResponseSubscriptionPath example_handle '':1.42''),
           SendWithReplyAndBlock (OpenFile_call\<lparr>call_body := example_body\<rparr>),
           PopMessage, ReadWrite, PopMessage,
           RemoveMatch (MakeResponseSubscriptionPath example_handle '':1.42'')]"
    by code_simp
  have empty: "bus_log initial_state = []"
    by (simp add: initial_state_def)
  note inst = resubscribes_only_when_handle_differs
         [where env = ?env and guess = example_handle and token_offset = 45 and filterList = "[]"
            and body = example_body and reply = ?reply and path = ?other and rest = "[]"
            and outPath = None and st = initial_state and address = ?other
            and unique_name = "'':1.42''"]
  from inst have form: "MakeResponseSubscriptionPath ?other '':1.42'' =
     ''type='signal',sender='org.freedesktop.portal.Desktop',path='' @ [CHR 0x27] @ ?other @
     [CHR 0x27] @ '',interface='org.freedesktop.portal.Request',member='Response',destination='' @
     [CHR 0x27] @ '':1.42'' @ [CHR 0x27]"
    by (elim conjE)
  have rule: "MakeResponseSubscriptionPath ?other '':1.42'' =
     ''type='signal',sender='org.freedesktop.portal.Desktop',path='/org/freedesktop/portal/desktop/request/1_42/other',interface='org.freedesktop.portal.Request',member='Response',destination=':1.42'' @ [CHR 0x27]"
    by (simp only: form) simp
  from inst [THEN conjunct2, THEN conjunct1] differs
  have other_rule: "MakeResponseSubscriptionPath ?other '':1.42'' \<noteq>
     MakeResponseSubscriptionPath example_handle '':1.42''"
    by blast
  from inst [THEN conjunct2, THEN conjunct2] made accepted built replied handle
  have "\<exists>out outPath' st' evs.
      NFD_OpenDialogN ?env None [] initial_state = Some (out, outPath', st') \<and>
      bus_log st' =
        [AddMatch (MakeResponseSubscriptionPath example_handle '':1.42''),
         SendWithReplyAndBlock (OpenFile_call\<lparr>call_body := example_body\<rparr>),
         RemoveMatch (MakeResponseSubscriptionPath example_handle '':1.42''),
         AddMatch (MakeResponseSubscriptionPath ?other '':1.42'')] @
        evs @
        (case out of
           Returned res \<Rightarrow> [RemoveMatch (MakeResponseSubscriptionPath ?other '':1.42'')]
         | Blocked \<Rightarrow> []
         | Undefined ub \<Rightarrow> []) \<and>
      set evs \<subseteq> {PopMessage, ReadWrite}"
    by (simp only: name rnd empty differs if_False append_Nil append_Cons simp_thms)
  with made built rule other_rule cancelled log_other log_same show ?thesis
    by (intro conjI)
qed

text \<open>
  A run that finds a URI: the message that owns the string has been released when the
  resolver reads it.
\<close>

lemma found_uri_is_read_after_release:
  "map_option fst
     (NFD_OpenDialogN
        (example_portal example_handle
           [Traffic [Response [DBUS_UINT32 0,
                               dict_value [(''uris'', DBUS_ARRAY [DBUS_STRING ''file:///home/u/doc.txt''])]]]])
        None [] initial_state) = Some (Undefined UseAfterFree)"
  by code_simp

text \<open>
  C3, at a Response with status 0 and an empty results dictionary. The decoder returns
  \<open>NFD_OKAY\<close> and leaves \<open>file\<close> unset; the dialog then goes back to the blocking read, where it
  stays when nothing else arrives, and a later Response decides its result. With an empty
  \<open>uris\<close> array the decoder does return an error.
\<close>

theorem missing_uris_keeps_waiting:
  "ReadResponseParamsSingle (Response [DBUS_UINT32 0, dict_value []]) None initial_state =
     (NFD_OKAY, None, initial_state) \<and>
   map_option fst
     (NFD_OpenDialogN
        (example_portal example_handle [Traffic [Response [DBUS_UINT32 0, dict_value []]]])
        None [] initial_state) = Some Blocked \<and>
   map_option fst
     (NFD_OpenDialogN
        (example_portal example_handle
           [Traffic [Response [DBUS_UINT32 0, dict_value []]], Traffic [Response [DBUS_UINT32 1]]])
        None [] initial_state) = Some (Returned NFD_CANCEL) \<and>
   map_option fst
     (NFD_OpenDialogN
        (example_portal example_handle
           [Traffic [Response [DBUS_UINT32 0, dict_value []]], Disconnected])
        None [] initial_state) = Some (Returned NFD_ERROR) \<and>
   map_option (err_ptr \<circ> snd \<circ> snd)
     (NFD_OpenDialogN
        (example_portal example_handle
           [Traffic [Response [DBUS_UINT32 0, dict_value []]], Disconnected])
        None [] initial_state) = Some (Some ''D-Bus freedesktop portal did not give us a reply.'') \<and>
   ReadResponseParamsSingle (Response [DBUS_UINT32 0, dict_value [(''uris'', DBUS_ARRAY [])]])
     None initial_state =
     (NFD_ERROR, None,
      initial_state\<lparr>err_ptr := Some ''D-Bus response signal URI sub iter is not an string.''\<rparr>) \<and>
   map_option fst
     (NFD_OpenDialogN
        (example_portal example_handle
           [Traffic [Response [DBUS_UINT32 0, dict_value [(''uris'', DBUS_ARRAY [])]]]])
        None [] initial_state) = Some (Returned NFD_ERROR)"
  by (intro conjI; code_simp)

subsection \<open>Request encoder\<close>

text \<open>
  C4, at the filter list of the claim. The first extension is copied into a buffer without
  its terminating NUL, so appending it as a string reads an uninitialised byte. With a
  single extension no buffer is used, and the tag and the pattern are appended through the
  iterator of the filter group, after its array of patterns, while the tuple opened for
  them stays empty and is never closed: the tree is not the wire structure of one group
  with the pattern.
\<close>

theorem filters_encoding_of_images:
  "AppendOpenFileQueryDictEntryFilters [] [\<lparr>name = ''Images'', spec = ''png,jpg,jpeg''\<rparr>] [] =
     Inl UninitialisedRead \<and>
   AppendOpenFileQueryDictEntryFilters [] [\<lparr>name = ''Images'', spec = ''png''\<rparr>] [] =
     Inr [WContainer DBUS_TYPE_DICT_ENTRY [] True
            [WBasic (DBUS_STRING ''filters''),
             WContainer DBUS_TYPE_VARIANT ''a(sa(us))'' True
               [WContainer DBUS_TYPE_ARRAY ''(sa(us))'' True
                  [WContainer DBUS_TYPE_STRUCT ''sa(us)'' True
                     [WBasic (DBUS_STRING ''Images''),
                      WContainer DBUS_TYPE_ARRAY ''(us)'' True
                        [WContainer DBUS_TYPE_STRUCT ''us'' False []],
                      WBasic (DBUS_UINT32 0), WBasic (DBUS_STRING ''png'')]]]]] \<and>
   map_sum id (map finish)
     (AppendOpenFileQueryDictEntryFilters [] [\<lparr>name = ''Images'', spec = ''png''\<rparr>] []) \<noteq>
     Inr [Some (filters_wire [(''Images'', [(0, ''png'')])])]"
  by (intro conjI; code_simp)

end
